theory Spec2Isabelle
  imports Complex_Main "HOL-Library.Sublist" "HOL-Library.AList" "HOL-Library.Log_Nat"
begin

section \<open>JavaScript strings and numbers\<close>

text \<open>
  A string is the list of the bytes of its UTF-8 encoding (the encoding of the exported
  file and of the request URL). A JavaScript number is an IEEE 754 double: \<open>NaN\<close>, one of
  the two infinities, the negative zero, or a finite value, written \<open>Num r\<close> with the
  rational \<open>r\<close> that the double denotes (\<open>Num 0\<close> is the positive zero). The finite values
  that the program computes come from \<open>toDouble\<close> below, the rounding of a real to the
  nearest double.
\<close>

datatype number = NaN | PlusInfinity | MinusInfinity | MinusZero | Num rat

text \<open>
  \<open>isNaN(x)\<close>, \<open>x <= 0\<close>, \<open>Number.isFinite(x)\<close> and the truthiness of a number; every
  comparison with \<open>NaN\<close> is false, and \<open>NaN\<close> and the two zeros are falsy.
\<close>

fun isNaN :: "number \<Rightarrow> bool" where
  "isNaN NaN = True"
| "isNaN _ = False"

fun le_zero :: "number \<Rightarrow> bool" where
  "le_zero NaN = False"
| "le_zero PlusInfinity = False"
| "le_zero MinusInfinity = True"
| "le_zero MinusZero = True"
| "le_zero (Num r) = (r \<le> 0)"

fun isFinite :: "number \<Rightarrow> bool" where
  "isFinite (Num r) = True"
| "isFinite MinusZero = True"
| "isFinite _ = False"


text \<open>
  Rounding to the nearest double, ties to the even significand. \<open>binade x\<close> is the
  exponent \<open>e\<close> with \<open>2^e \<le> x < 2^(e+1)\<close> for a positive \<open>x\<close> (the bit lengths of the
  numerator and the denominator give it up to one). The doubles between \<open>2^e\<close> and
  \<open>2^(e+1)\<close> are the multiples of \<open>2^(e-52)\<close>; below \<open>2^(-1022)\<close> (the subnormal numbers)
  they are the multiples of \<open>2^(-1074)\<close>. A result of \<open>2^1024\<close> or more is infinite: it is
  reached from the binade 1023 by rounding up to \<open>2^53\<close> units, and in every higher
  binade. A result of zero keeps the sign of what was rounded.
\<close>

definition pow2 :: "int \<Rightarrow> rat" where
  "pow2 e = (if e \<ge> 0 then of_int (2 ^ nat e) else 1 / of_int (2 ^ nat (- e)))"

definition pow10 :: "int \<Rightarrow> rat" where
  "pow10 e = (if e \<ge> 0 then of_int (10 ^ nat e) else 1 / of_int (10 ^ nat (- e)))"

definition binade :: "rat \<Rightarrow> int" where
  "binade x =
     (let e0 = bitlen (fst (quotient_of x)) - bitlen (snd (quotient_of x))
      in if pow2 e0 \<le> x then e0 else e0 - 1)"

definition roundHalfEven :: "rat \<Rightarrow> int" where
  "roundHalfEven y =
     (let f = \<lfloor>y\<rfloor>; d = y - of_int f
      in if d < 1 / 2 then f else if 1 / 2 < d then f + 1 else if even f then f else f + 1)"

definition toDouble :: "rat \<Rightarrow> number" where
  "toDouble x =
     (if x = 0 then Num 0
      else
        (let a = \<bar>x\<bar>;
             e = max (binade a) (- 1022);
             u = pow2 (e - 52);
             n = roundHalfEven (a / u);
             y = of_int n * u
         in if 1024 \<le> e \<or> (e = 1023 \<and> n = 2 ^ 53) then
              (if x < 0 then MinusInfinity else PlusInfinity)
            else if y = 0 then (if x < 0 then MinusZero else Num 0)
            else Num (if x < 0 then - y else y)))"

text \<open>
  \<open>x + y\<close> on numbers: the exact sum, rounded. The sum of two opposite infinities is
  \<open>NaN\<close>, and a sum that is exactly zero is the positive zero unless both summands are the
  negative zero. \<open>negate x\<close> is \<open>-x\<close>, and \<open>ofInt n\<close> the number of an integer (the value
  of \<open>Date.now()\<close>, a page number).
\<close>

fun add :: "number \<Rightarrow> number \<Rightarrow> number" where
  "add NaN _ = NaN"
| "add _ NaN = NaN"
| "add PlusInfinity MinusInfinity = NaN"
| "add MinusInfinity PlusInfinity = NaN"
| "add PlusInfinity _ = PlusInfinity"
| "add _ PlusInfinity = PlusInfinity"
| "add MinusInfinity _ = MinusInfinity"
| "add _ MinusInfinity = MinusInfinity"
| "add MinusZero y = y"
| "add x MinusZero = x"
| "add (Num a) (Num b) = toDouble (a + b)"

fun negate :: "number \<Rightarrow> number" where
  "negate NaN = NaN"
| "negate PlusInfinity = MinusInfinity"
| "negate MinusInfinity = PlusInfinity"
| "negate MinusZero = Num 0"
| "negate (Num r) = (if r = 0 then MinusZero else Num (- r))"

definition ofInt :: "int \<Rightarrow> number" where
  "ofInt n = toDouble (of_int n)"


text \<open>Truthiness of a string and of a string that may be \<open>null\<close> or \<open>undefined\<close>.\<close>

definition truthy :: "string \<Rightarrow> bool" where
  "truthy s = (s \<noteq> [])"

fun truthy_opt :: "string option \<Rightarrow> bool" where
  "truthy_opt None = False"
| "truthy_opt (Some s) = truthy s"

text \<open>
  The white space and line terminators of ECMAScript (TAB, LF, VT, FF, CR, SP, U+00A0,
  U+1680, U+2000 to U+200A, U+2028, U+2029, U+202F, U+205F, U+3000, U+FEFF), each as its
  UTF-8 bytes. \<open>trim\<close> removes them from both ends of a string.
\<close>

definition white_space :: "string list" where
  "white_space =
    [[CHR 0x09], [CHR 0x0A], [CHR 0x0B], [CHR 0x0C], [CHR 0x0D], [CHR 0x20],
     [CHR 0xC2, CHR 0xA0],
     [CHR 0xE1, CHR 0x9A, CHR 0x80],
     [CHR 0xE2, CHR 0x80, CHR 0x80], [CHR 0xE2, CHR 0x80, CHR 0x81],
     [CHR 0xE2, CHR 0x80, CHR 0x82], [CHR 0xE2, CHR 0x80, CHR 0x83],
     [CHR 0xE2, CHR 0x80, CHR 0x84], [CHR 0xE2, CHR 0x80, CHR 0x85],
     [CHR 0xE2, CHR 0x80, CHR 0x86], [CHR 0xE2, CHR 0x80, CHR 0x87],
     [CHR 0xE2, CHR 0x80, CHR 0x88], [CHR 0xE2, CHR 0x80, CHR 0x89],
     [CHR 0xE2, CHR 0x80, CHR 0x8A],
     [CHR 0xE2, CHR 0x80, CHR 0xA8], [CHR 0xE2, CHR 0x80, CHR 0xA9],
     [CHR 0xE2, CHR 0x80, CHR 0xAF],
     [CHR 0xE2, CHR 0x81, CHR 0x9F],
     [CHR 0xE3, CHR 0x80, CHR 0x80],
     [CHR 0xEF, CHR 0xBB, CHR 0xBF]]"

definition leading_white_space :: "string \<Rightarrow> string option" where
  "leading_white_space s = find (\<lambda>w. prefix w s) white_space"

definition trailing_white_space :: "string \<Rightarrow> string option" where
  "trailing_white_space s = find (\<lambda>w. suffix w s) white_space"

lemma white_space_nonempty: "w \<in> set white_space \<Longrightarrow> w \<noteq> []"
  by (auto simp: white_space_def)

lemma leading_white_space_bounds:
  assumes "leading_white_space s = Some w"
  shows "0 < length w \<and> length w \<le> length s"
proof -
  from assms have "w \<in> set white_space" and "prefix w s"
    by (auto simp: leading_white_space_def find_Some_iff)
  then show ?thesis
    using white_space_nonempty [of w] by (simp add: prefix_length_le)
qed

lemma trailing_white_space_bounds:
  assumes "trailing_white_space s = Some w"
  shows "0 < length w \<and> length w \<le> length s"
proof -
  from assms have "w \<in> set white_space" and "suffix w s"
    by (auto simp: trailing_white_space_def find_Some_iff)
  then show ?thesis
    using white_space_nonempty [of w] by (simp add: suffix_length_le)
qed

function trimStart :: "string \<Rightarrow> string" where
  "trimStart s =
     (case leading_white_space s of
        None \<Rightarrow> s
      | Some w \<Rightarrow> trimStart (drop (length w) s))"
  by pat_completeness auto
termination
proof (relation "measure length")
  fix s w
  assume "leading_white_space s = Some w"
  from leading_white_space_bounds [OF this]
  show "(drop (length w) s, s) \<in> measure length" by (cases w) auto
qed simp

function trimEnd :: "string \<Rightarrow> string" where
  "trimEnd s =
     (case trailing_white_space s of
        None \<Rightarrow> s
      | Some w \<Rightarrow> trimEnd (take (length s - length w) s))"
  by pat_completeness auto
termination
proof (relation "measure length")
  fix s w
  assume "trailing_white_space s = Some w"
  from trailing_white_space_bounds [OF this]
  show "(take (length s - length w) s, s) \<in> measure length" by (cases w) auto
qed simp

declare trimStart.simps [simp del]
declare trimEnd.simps [simp del]

definition trim :: "string \<Rightarrow> string" where
  "trim s = trimEnd (trimStart s)"

text \<open>\<open>xs.join(sep)\<close> on an array of strings.\<close>

fun join :: "string \<Rightarrow> string list \<Rightarrow> string" where
  "join sep [] = []"
| "join sep [x] = x"
| "join sep (x # y # ys) = x @ sep @ join sep (y # ys)"

text \<open>Decimal digits of a non-negative integer, most significant first.\<close>

definition digitChar :: "int \<Rightarrow> char" where
  "digitChar d = char_of (48 + d)"

function digits :: "int \<Rightarrow> string" where
  "digits n = (if n < 10 then [digitChar n] else digits (n div 10) @ [digitChar (n mod 10)])"
  by pat_completeness auto
termination
  by (relation "measure nat") auto

declare digits.simps [simp del]

definition isDigit :: "char \<Rightarrow> bool" where
  "isDigit c = (c \<in> set ''0123456789'')"

definition digitsValue :: "string \<Rightarrow> int" where
  "digitsValue ds = foldl (\<lambda>n c. 10 * n + (of_char c - 48)) 0 ds"

definition stripTrailingZeros :: "string \<Rightarrow> string" where
  "stripTrailingZeros ds = rev (dropWhile (\<lambda>c. c = CHR ''0'') (rev ds))"

text \<open>
  \<open>Number::toString\<close> (radix 10). For a finite \<open>x > 0\<close> ECMAScript takes integers \<open>n\<close>,
  \<open>k\<close> and \<open>s\<close> with \<open>k \<ge> 1\<close>, \<open>10^(k-1) \<le> s < 10^k\<close>, the double of \<open>s * 10^(n-k)\<close> being
  \<open>x\<close>, and \<open>k\<close> as small as possible; among several \<open>s\<close> the one nearest to \<open>x\<close>, the even
  one on a tie. \<open>decade x\<close> is the \<open>d\<close> with \<open>10^(d-1) \<le> x < 10^d\<close>. \<open>candidate x d k\<close>
  looks for \<open>s\<close> among the two multiples of \<open>10^(d-k)\<close> around \<open>x\<close>; the upper one may be
  \<open>10^k\<close>, which stands for the digit \<open>1\<close> with \<open>n = d + 1\<close>. Seventeen digits determine a
  double, so the search ends at \<open>k = 17\<close>. \<open>formatDigits\<close> writes the \<open>k\<close> digits with
  the exponent \<open>n\<close>: with zeros appended or a point inserted when \<open>0 < n \<le> 21\<close>, after
  \<open>0.\<close> and zeros when \<open>-6 < n \<le> 0\<close>, and in exponent notation otherwise (\<open>mantissa\<close> puts
  the point after the first of several digits).
\<close>

definition decade :: "rat \<Rightarrow> int" where
  "decade x =
     (if 1 \<le> x then int (length (digits \<lfloor>x\<rfloor>))
      else
        (let m = int (length (digits \<lfloor>1 / x\<rfloor>))
         in if x = pow10 (1 - m) then 2 - m else 1 - m))"

definition candidate :: "rat \<Rightarrow> int \<Rightarrow> int \<Rightarrow> int option" where
  "candidate x d k =
     (let scale = pow10 (d - k);
          lo = \<lfloor>x / scale\<rfloor>;
          hi = lo + 1;
          okLo = (toDouble (of_int lo * scale) = Num x);
          okHi = (toDouble (of_int hi * scale) = Num x)
      in if okLo \<and> okHi then
           (if x - of_int lo * scale < of_int hi * scale - x then Some lo
            else if of_int hi * scale - x < x - of_int lo * scale then Some hi
            else if even lo then Some lo else Some hi)
         else if okLo then Some lo
         else if okHi then Some hi
         else None)"

fun firstCandidate :: "rat \<Rightarrow> int \<Rightarrow> int list \<Rightarrow> (int \<times> int) option" where
  "firstCandidate x d [] = None"
| "firstCandidate x d (k # ks) =
     (case candidate x d k of
        Some s \<Rightarrow> Some (s, k)
      | None \<Rightarrow> firstCandidate x d ks)"

definition shortestDigits :: "rat \<Rightarrow> string \<times> int" where
  "shortestDigits x =
     (let d = decade x;
          sk = (case firstCandidate x d [1, 2, 3, 4, 5, 6, 7, 8, 9, 10, 11, 12, 13, 14, 15, 16, 17] of
                  Some sk \<Rightarrow> sk
                | None \<Rightarrow> (\<lfloor>x / pow10 (d - 17)\<rfloor>, 17))
      in (stripTrailingZeros (digits (fst sk)),
          if fst sk = 10 ^ nat (snd sk) then d + 1 else d))"

fun mantissa :: "string \<Rightarrow> string" where
  "mantissa [] = []"
| "mantissa [c] = [c]"
| "mantissa (c # r) = c # CHR ''.'' # r"

definition formatDigits :: "string \<Rightarrow> int \<Rightarrow> string" where
  "formatDigits s n =
     (let k = int (length s)
      in if k \<le> n \<and> n \<le> 21 then s @ replicate (nat (n - k)) CHR ''0''
         else if 0 < n \<and> n \<le> 21 then take (nat n) s @ ''.'' @ drop (nat n) s
         else if - 6 < n \<and> n \<le> 0 then ''0.'' @ replicate (nat (- n)) CHR ''0'' @ s
         else mantissa s @ ''e'' @ (if n - 1 < 0 then ''-'' else ''+'') @ digits \<bar>n - 1\<bar>)"

fun Number_toString :: "number \<Rightarrow> string" where
  "Number_toString NaN = ''NaN''"
| "Number_toString PlusInfinity = ''Infinity''"
| "Number_toString MinusInfinity = ''-Infinity''"
| "Number_toString MinusZero = ''0''"
| "Number_toString (Num r) =
     (if r = 0 then ''0''
      else (if r < 0 then ''-'' else '''')
           @ formatDigits (fst (shortestDigits \<bar>r\<bar>)) (snd (shortestDigits \<bar>r\<bar>)))"

text \<open>
  \<open>x.toFixed(f)\<close>, following Number.prototype.toFixed step by step: a value that is not
  finite gives \<open>Number::toString\<close> of it; the sign is split off; from \<open>10^21\<close> the result
  is \<open>ToString(x)\<close>; below, \<open>n\<close> is the integer nearest to \<open>x * 10^f\<close> (the larger one on
  a tie), its digits are padded with zeros to \<open>f + 1\<close> places and the point is put before
  the last \<open>f\<close> of them (\<open>fixedDigits\<close>).
\<close>

definition fixedDigits :: "nat \<Rightarrow> rat \<Rightarrow> string" where
  "fixedDigits f x =
     (let n = \<lfloor>x * 10 ^ f + 1 / 2\<rfloor>;
          m = (if n = 0 then ''0'' else digits n)
      in if f \<noteq> 0 then
           (let m' = (if length m \<le> f then replicate (f + 1 - length m) CHR ''0'' @ m else m);
                k = length m'
            in take (k - f) m' @ ''.'' @ drop (k - f) m')
         else m)"

fun toFixed :: "nat \<Rightarrow> number \<Rightarrow> string" where
  "toFixed f NaN = Number_toString NaN"
| "toFixed f PlusInfinity = Number_toString PlusInfinity"
| "toFixed f MinusInfinity = Number_toString MinusInfinity"
| "toFixed f MinusZero = fixedDigits f 0"
| "toFixed f (Num r) =
     (let s = (if r < 0 then ''-'' else '''');
          x = (if r < 0 then - r else r)
      in if x \<ge> 10 ^ 21 then s @ Number_toString (Num x)
         else s @ fixedDigits f x)"

text \<open>
  \<open>parseFloat(str)\<close>: leading white space is skipped, then the longest prefix that is a
  decimal literal (sign, digits, fraction, exponent, or \<open>Infinity\<close>) is read and the rest
  of the string ignored; \<open>NaN\<close> when there is no such prefix. The result is the double
  nearest to the decimal value of the literal, with its sign. \<open>parseExponent\<close> reads an
  exponent part if a complete one follows, \<open>parseUnsigned\<close> the literal after its sign.
\<close>

definition parseExponent :: "string \<Rightarrow> int" where
  "parseExponent r =
     (case r of
        [] \<Rightarrow> 0
      | c # r1 \<Rightarrow>
          if c = CHR ''e'' \<or> c = CHR ''E'' then
            (let neg = (case r1 of [] \<Rightarrow> False | d # _ \<Rightarrow> d = CHR ''-'');
                 r2 = (case r1 of [] \<Rightarrow> []
                       | d # r' \<Rightarrow> if d = CHR ''-'' \<or> d = CHR ''+'' then r' else r1);
                 es = takeWhile isDigit r2
             in if es = [] then 0 else if neg then - digitsValue es else digitsValue es)
          else 0)"

definition decimalValue :: "string \<Rightarrow> string \<Rightarrow> int \<Rightarrow> rat" where
  "decimalValue ip fp e =
     (of_int (digitsValue ip) + of_int (digitsValue fp) / 10 ^ length fp) * pow10 e"

definition parseUnsigned :: "bool \<Rightarrow> string \<Rightarrow> number" where
  "parseUnsigned neg r =
     (if prefix ''Infinity'' r then (if neg then MinusInfinity else PlusInfinity)
      else
        (let ip = takeWhile isDigit r;
             r1 = dropWhile isDigit r;
             hasDot = (case r1 of [] \<Rightarrow> False | c # _ \<Rightarrow> c = CHR ''.'');
             fp = (if hasDot then takeWhile isDigit (tl r1) else []);
             r2 = (if hasDot then dropWhile isDigit (tl r1) else r1)
         in if ip = [] \<and> fp = [] then NaN
            else
              (let v = toDouble (decimalValue ip fp (parseExponent r2))
               in if neg then negate v else v)))"

definition parseFloat :: "string \<Rightarrow> number" where
  "parseFloat str =
     (case trimStart str of
        [] \<Rightarrow> NaN
      | c # r \<Rightarrow>
          if c = CHR ''-'' then parseUnsigned True r
          else if c = CHR ''+'' then parseUnsigned False r
          else parseUnsigned False (c # r))"

section \<open>The types of lib/types.ts\<close>

text \<open>
  The interfaces as records with the field names of the source; fields that several
  interfaces share are written with the record's name in front (\<open>Expense.amount\<close>).
  An optional field is an \<open>option\<close>. An amount that comes from the server is the number
  that \<open>response.json()\<close> read (any double but \<open>NaN\<close>: a JSON number too large for a
  double reads as an infinity); the amount of an input comes from \<open>parseFloat\<close>.
\<close>

record Expense =
  id :: string
  amount :: number
  category :: string
  description :: string
  date :: string
  created_at :: string

record CreateExpenseInput =
  amount :: number
  category :: string
  description :: string
  date :: string
  idempotency_key :: "string option"

record 'a PaginatedResponse =
  data :: "'a list"
  total :: int
  page :: int
  limit :: int
  totalPages :: int

record ApiError =
  error :: "string option"
  details :: "string list option"

section \<open>The API client (lib/api.ts)\<close>

text \<open>
  \<open>API_BASE_URL = process.env.NEXT_PUBLIC_API_URL || 'http://localhost:3001'\<close>, with the
  environment variable as a parameter. \<open>or_string a b\<close> is \<open>a || b\<close> for a string \<open>a\<close> that
  may be undefined and a string \<open>b\<close>.
\<close>

fun or_string :: "string option \<Rightarrow> string \<Rightarrow> string" where
  "or_string None b = b"
| "or_string (Some a) b = (if truthy a then a else b)"

definition API_BASE_URL :: "string option \<Rightarrow> string" where
  "API_BASE_URL NEXT_PUBLIC_API_URL = or_string NEXT_PUBLIC_API_URL ''http://localhost:3001''"

text \<open>
  \<open>generateIdempotencyKey\<close>, with \<open>Date.now()\<close> (an integer number of milliseconds) and
  \<open>Math.random().toString(36)\<close> as parameters; \<open>substring(2, 15)\<close> keeps the characters 2
  to 14.
\<close>

definition substring :: "nat \<Rightarrow> nat \<Rightarrow> string \<Rightarrow> string" where
  "substring i j s = take (j - i) (drop i s)"

definition generateIdempotencyKey :: "int \<Rightarrow> string \<Rightarrow> string" where
  "generateIdempotencyKey now random36 =
     Number_toString (ofInt now) @ ''-'' @ substring 2 15 random36"

text \<open>
  What is thrown: every error the client meets is an instance of \<open>Error\<close> with a message
  (\<open>TypeError\<close> from a failed \<open>fetch\<close> or a property read on \<open>undefined\<close>, \<open>SyntaxError\<close>
  from \<open>response.json()\<close>, and the \<open>Error\<close> that \<open>request\<close> throws itself).
\<close>

datatype js_error = TypeError string | SyntaxError string | Error string

fun message :: "js_error \<Rightarrow> string" where
  "message (TypeError m) = m"
| "message (SyntaxError m) = m"
| "message (Error m) = m"

text \<open>
  The call \<open>fetch(url, init)\<close>. The body is \<open>JSON.stringify(input)\<close>; the model keeps the
  input itself. \<open>method' = None\<close> is a call without a method (a GET).
\<close>

record RequestInit =
  method' :: "string option"
  body :: "CreateExpenseInput option"
  headers :: "(string \<times> string) list"

record FetchCall =
  url :: string
  init :: RequestInit

text \<open>
  The response. \<open>response.json()\<close> either rejects (\<open>NotJSON\<close>, with the message of the
  syntax error) or yields the parsed body. The source reads the same parsed value as
  \<open>T\<close> (\<open>data as T\<close>) and as \<open>ApiError\<close> (\<open>data as ApiError\<close>), so \<open>JSON\<close> carries both
  readings. \<open>ok\<close> is true for the status codes 200 to 299.
\<close>

datatype 'a body = NotJSON string | JSON 'a ApiError

record 'a Response =
  status :: nat
  json :: "'a body"

definition ok :: "'a Response \<Rightarrow> bool" where
  "ok response = (200 \<le> status response \<and> status response \<le> 299)"

text \<open>
  The message of the error thrown for a response that is not ok:
  \<open>error.details?.join(', ') || error.error || 'Request failed'\<close>.
\<close>

definition error_message :: "ApiError \<Rightarrow> string" where
  "error_message e =
     or_string (map_option (join '', '') (details e))
       (or_string (error e) ''Request failed'')"

text \<open>
  \<open>request\<close>. \<open>request_call\<close> is the call it makes: the options with the
  \<open>Content-Type\<close> header put first and the headers of the options spread over it.
  \<open>fetch\<close> is the network: it answers a call with a response or rejects. The result
  \<open>Inr None\<close> is \<open>undefined\<close>.
\<close>

definition request_call :: "string \<Rightarrow> string \<Rightarrow> RequestInit \<Rightarrow> FetchCall" where
  "request_call base endpoint options =
     \<lparr>url = base @ endpoint,
      init = options\<lparr>headers :=
        foldl (\<lambda>h (k, v). AList.update k v h)
          [(''Content-Type'', ''application/json'')] (headers options)\<rparr>\<rparr>"

definition request ::
    "string \<Rightarrow> (FetchCall \<Rightarrow> js_error + 'a Response) \<Rightarrow> string \<Rightarrow> RequestInit
     \<Rightarrow> js_error + 'a option" where
  "request base fetch endpoint options =
     (case fetch (request_call base endpoint options) of
        Inl err \<Rightarrow> Inl err
      | Inr response \<Rightarrow>
          if status response = 204 then Inr None
          else
            (case json response of
               NotJSON m \<Rightarrow> Inl (SyntaxError m)
             | JSON data_T data_ApiError \<Rightarrow>
                 if \<not> ok response then Inl (Error (error_message data_ApiError))
                 else Inr (Some data_T)))"

definition no_options :: RequestInit where
  "no_options = \<lparr>method' = None, body = None, headers = []\<rparr>"

definition createExpense ::
    "string \<Rightarrow> (FetchCall \<Rightarrow> js_error + Expense Response) \<Rightarrow> CreateExpenseInput
     \<Rightarrow> js_error + Expense option" where
  "createExpense base fetch input =
     request base fetch ''/expenses''
       \<lparr>method' = Some ''POST'', body = Some input, headers = []\<rparr>"

definition updateExpense ::
    "string \<Rightarrow> (FetchCall \<Rightarrow> js_error + Expense Response) \<Rightarrow> string \<Rightarrow> CreateExpenseInput
     \<Rightarrow> js_error + Expense option" where
  "updateExpense base fetch i input =
     request base fetch (''/expenses/'' @ i)
       \<lparr>method' = Some ''PUT'', body = Some input, headers = []\<rparr>"

definition deleteExpense ::
    "string \<Rightarrow> (FetchCall \<Rightarrow> js_error + 'a Response) \<Rightarrow> string \<Rightarrow> js_error + 'a option" where
  "deleteExpense base fetch i =
     request base fetch (''/expenses/'' @ i)
       \<lparr>method' = Some ''DELETE'', body = None, headers = []\<rparr>"

text \<open>
  \<open>URLSearchParams\<close>: a list of name-value pairs. \<open>set\<close> replaces the value of the first
  pair of that name and removes the others, or appends a new pair. \<open>toString\<close> is the
  \<open>application/x-www-form-urlencoded\<close> serialisation: the bytes of letters, digits and
  \<open>* - . _\<close> stay, a space becomes \<open>+\<close>, every other byte \<open>%XX\<close>.
\<close>

fun searchParams_set :: "string \<Rightarrow> string \<Rightarrow> (string \<times> string) list \<Rightarrow> (string \<times> string) list" where
  "searchParams_set k v [] = [(k, v)]"
| "searchParams_set k v (p # ps) =
     (if fst p = k then (k, v) # filter (\<lambda>q. fst q \<noteq> k) ps
      else p # searchParams_set k v ps)"

definition hexChar :: "nat \<Rightarrow> char" where
  "hexChar n = ''0123456789ABCDEF'' ! n"

definition urlencodeByte :: "char \<Rightarrow> string" where
  "urlencodeByte c =
     (if c \<in> set ''abcdefghijklmnopqrstuvwxyzABCDEFGHIJKLMNOPQRSTUVWXYZ0123456789*-._'' then [c]
      else if c = CHR '' '' then ''+''
      else [CHR ''%'', hexChar (of_char c div 16), hexChar (of_char c mod 16)])"

definition urlencode :: "string \<Rightarrow> string" where
  "urlencode s = concat (map urlencodeByte s)"

definition searchParams_toString :: "(string \<times> string) list \<Rightarrow> string" where
  "searchParams_toString ps =
     join ''&'' (map (\<lambda>p. urlencode (fst p) @ ''='' @ urlencode (snd p)) ps)"

text \<open>
  \<open>getExpenses\<close>. The parameter object and each of its fields may be absent; a page or a
  limit is an integer (the callers pass the current page and the page size), truthy when
  it is not \<open>0\<close>. \<open>getExpenses_searchParams\<close> is the \<open>URLSearchParams\<close> object after the
  four conditional \<open>set\<close> calls, \<open>getExpenses_endpoint\<close> the endpoint requested.
\<close>

record GetExpensesParams =
  category :: "string option"
  sort :: "string option"
  page :: "int option"
  limit :: "int option"

definition getExpenses_searchParams :: "GetExpensesParams option \<Rightarrow> (string \<times> string) list" where
  "getExpenses_searchParams params =
     (let sp0 = [];
          sp1 = (case Option.bind params GetExpensesParams.category of
                   Some c \<Rightarrow> if truthy c then searchParams_set ''category'' c sp0 else sp0
                 | None \<Rightarrow> sp0);
          sp2 = (case Option.bind params GetExpensesParams.sort of
                   Some s \<Rightarrow> if truthy s then searchParams_set ''sort'' s sp1 else sp1
                 | None \<Rightarrow> sp1);
          sp3 = (case Option.bind params GetExpensesParams.page of
                   Some n \<Rightarrow> if n \<noteq> 0 then searchParams_set ''page'' (Number_toString (ofInt n)) sp2 else sp2
                 | None \<Rightarrow> sp2);
          sp4 = (case Option.bind params GetExpensesParams.limit of
                   Some n \<Rightarrow> if n \<noteq> 0 then searchParams_set ''limit'' (Number_toString (ofInt n)) sp3 else sp3
                 | None \<Rightarrow> sp3)
      in sp4)"

definition getExpenses_endpoint :: "GetExpensesParams option \<Rightarrow> string" where
  "getExpenses_endpoint params =
     (let queryString = searchParams_toString (getExpenses_searchParams params)
      in if truthy queryString then ''/expenses?'' @ queryString else ''/expenses'')"

definition getExpenses ::
    "string \<Rightarrow> (FetchCall \<Rightarrow> js_error + (Expense PaginatedResponse) Response)
     \<Rightarrow> GetExpensesParams option \<Rightarrow> js_error + (Expense PaginatedResponse) option" where
  "getExpenses base fetch params = request base fetch (getExpenses_endpoint params) no_options"

text \<open>
  \<open>stamp.split('T')[0]\<close> for \<open>stamp = new Date().toISOString()\<close>: the date part of the
  time stamp.
\<close>

definition isoDate :: "string \<Rightarrow> string" where
  "isoDate stamp = takeWhile (\<lambda>c. c \<noteq> CHR ''T'') stamp"

text \<open>
  \<open>exportToCSV\<close>. Its effect is the download of a blob; the model returns the blob's
  text, its type and the file name. \<open>stamp\<close> is \<open>new Date().toISOString()\<close>. The rupee
  sign of the header is the three bytes of U+20B9.
\<close>

definition doubleQuotes :: "string \<Rightarrow> string" where
  "doubleQuotes s = concat (map (\<lambda>c. if c = CHR 0x22 then [CHR 0x22, CHR 0x22] else [c]) s)"

definition csvHeaders :: "string list" where
  "csvHeaders = [''Date'', ''Description'', ''Category'',
     ''Amount ('' @ [CHR 0xE2, CHR 0x82, CHR 0xB9] @ '')'']"

definition csvRow :: "Expense \<Rightarrow> string list" where
  "csvRow e =
     [Expense.date e,
      [CHR 0x22] @ doubleQuotes (Expense.description e) @ [CHR 0x22],
      Expense.category e,
      toFixed 2 (Expense.amount e)]"

definition csvText :: "Expense list \<Rightarrow> string" where
  "csvText es =
     join [CHR 0x0A] (join '','' csvHeaders # map (\<lambda>row. join '','' row) (map csvRow es))"

record Download =
  blob_text :: string
  blob_type :: string
  download :: string

definition exportToCSV :: "string \<Rightarrow> Expense list \<Rightarrow> Download" where
  "exportToCSV stamp es =
     \<lparr>blob_text = csvText es,
      blob_type = ''text/csv;charset=utf-8;'',
      download = ''expenses_'' @ isoDate stamp @ ''.csv''\<rparr>"

section \<open>The categories (lib/types.ts)\<close>

definition CATEGORIES :: "string list" where
  "CATEGORIES =
    [''Food'', ''Transport'', ''Entertainment'', ''Shopping'',
     ''Bills'', ''Healthcare'', ''Education'', ''Other'']"

text \<open>
  An \<open><option key={..} value={..}>text</option>\<close> element of a \<open><select>\<close>. Both forms
  render their category select with \<open>CATEGORIES.map((cat) => <option key={cat}
  value={cat}>{cat}</option>)\<close> and nothing else inside the select.
\<close>

record select_option =
  opt_key :: string
  opt_value :: string
  opt_text :: string

definition category_option :: "string \<Rightarrow> select_option" where
  "category_option cat = \<lparr>opt_key = cat, opt_value = cat, opt_text = cat\<rparr>"

definition createFormCategoryOptions :: "select_option list" where
  "createFormCategoryOptions = map category_option CATEGORIES"

definition editFormCategoryOptions :: "select_option list" where
  "editFormCategoryOptions = map category_option CATEGORIES"

section \<open>The create form (components/ExpenseForm)\<close>

text \<open>
  The state of the component: one field for each \<open>useState\<close>. A submission is modelled
  from the call of \<open>handleSubmit\<close> to the end of its \<open>finally\<close> block, so the intermediate
  \<open>isSubmitting = true\<close> is not a state of the model; one submission ends before the
  next begins.
\<close>

record ExpenseForm =
  amount :: string
  category :: string
  description :: string
  date :: string
  isSubmitting :: bool
  error :: "string option"
  currentIdempotencyKey :: "string option"

text \<open>
  What a submission reads from outside the component: the clock and the random source of
  \<open>generateIdempotencyKey\<close>, \<open>new Date().toISOString()\<close> of \<open>resetForm\<close>, the environment
  variable of the base URL, and the network.
\<close>

record SubmitEnv =
  now :: int
  random36 :: string
  isoNow :: string
  NEXT_PUBLIC_API_URL :: "string option"
  fetchPost :: "FetchCall \<Rightarrow> js_error + Expense Response"

definition initialExpenseForm :: "string \<Rightarrow> ExpenseForm" where
  "initialExpenseForm stamp =
     \<lparr>amount = '''', category = hd CATEGORIES, description = '''', date = isoDate stamp,
      isSubmitting = False, error = None, currentIdempotencyKey = None\<rparr>"

definition resetForm :: "string \<Rightarrow> ExpenseForm \<Rightarrow> ExpenseForm" where
  "resetForm stamp st =
     st\<lparr>ExpenseForm.amount := '''',
        ExpenseForm.category := hd CATEGORIES,
        ExpenseForm.description := '''',
        ExpenseForm.date := isoDate stamp,
        currentIdempotencyKey := None\<rparr>"

text \<open>
  The result of \<open>handleSubmit\<close>: the state after it, the input it gave to
  \<open>api.createExpense\<close> (\<open>None\<close> when it returned before the call), and whether
  \<open>onExpenseCreated\<close> was called, that is whether the creation succeeded.
\<close>

record SubmitResult =
  state :: ExpenseForm
  sent :: "CreateExpenseInput option"
  created :: bool

definition handleSubmit :: "SubmitEnv \<Rightarrow> ExpenseForm \<Rightarrow> SubmitResult" where
  "handleSubmit env st0 =
     (let st = st0\<lparr>ExpenseForm.error := None\<rparr>;
          amountNum = parseFloat (ExpenseForm.amount st)
      in if isNaN amountNum \<or> le_zero amountNum then
           \<lparr>state = st\<lparr>ExpenseForm.error := Some ''Please enter a valid amount greater than 0''\<rparr>,
            sent = None, created = False\<rparr>
         else if \<not> truthy (trim (ExpenseForm.description st)) then
           \<lparr>state = st\<lparr>ExpenseForm.error := Some ''Please enter a description''\<rparr>,
            sent = None, created = False\<rparr>
         else if \<not> truthy (ExpenseForm.date st) then
           \<lparr>state = st\<lparr>ExpenseForm.error := Some ''Please select a date''\<rparr>,
            sent = None, created = False\<rparr>
         else
           (let idempotencyKey =
                  or_string (currentIdempotencyKey st)
                    (generateIdempotencyKey (now env) (random36 env));
                st1 = (if \<not> truthy_opt (currentIdempotencyKey st)
                       then st\<lparr>currentIdempotencyKey := Some idempotencyKey\<rparr> else st);
                input =
                  \<lparr>CreateExpenseInput.amount = amountNum,
                   CreateExpenseInput.category = ExpenseForm.category st,
                   CreateExpenseInput.description = trim (ExpenseForm.description st),
                   CreateExpenseInput.date = ExpenseForm.date st,
                   idempotency_key = Some idempotencyKey\<rparr>
            in case createExpense (API_BASE_URL (NEXT_PUBLIC_API_URL env)) (fetchPost env) input of
                 Inr _ \<Rightarrow>
                   \<lparr>state = (resetForm (isoNow env) st1)\<lparr>isSubmitting := False\<rparr>,
                    sent = Some input, created = True\<rparr>
               | Inl err \<Rightarrow>
                   \<lparr>state = st1\<lparr>ExpenseForm.error := Some (message err), isSubmitting := False\<rparr>,
                    sent = Some input, created = False\<rparr>))"

text \<open>
  The form element. \<open>handleSubmit\<close> is the \<open>onSubmit\<close> handler of a \<open><form>\<close> without
  \<open>noValidate\<close>: when the user submits, the browser first checks the constraints of the
  controls, and calls the handler only when all of them hold; otherwise it reports the
  first invalid control and no event is fired. The values of the controls are the fields
  of the state. The controls and their constraints:

  \<^item> amount: \<open><input type="number" step="0.01" min="0.01" required>\<close>. A value that is
    not a valid floating-point number of HTML (an optional \<open>-\<close>, digits, an optional
    fraction of at least one digit, an optional exponent; the digits or the fraction may
    be missing, not both) or whose double is infinite is no value at all, and the control
    is then missing its required value. A number below the minimum underflows the range,
    and a number that is not the minimum plus a multiple of the step mismatches the step.
    The range and the step are computed on the decimal values, as browsers do.
  \<^item> date: \<open><input type="date" required>\<close>, whose value is a valid date string
    (\<open>yyyy-mm-dd\<close>, with at least four digits of a year above 0) or empty.
  \<^item> description: \<open><input type="text" maxLength={500} required>\<close>, which must not be
    empty.
  \<^item> category: a \<open><select>\<close> without constraints.

  The submit button and the controls are disabled while \<open>isSubmitting\<close> is true: the
  form cannot be submitted then.
\<close>

definition htmlNumber :: "string \<Rightarrow> rat option" where
  "htmlNumber s =
     (let neg = (case s of [] \<Rightarrow> False | c # _ \<Rightarrow> c = CHR ''-'');
          r = (if neg then tl s else s);
          ip = takeWhile isDigit r;
          r1 = dropWhile isDigit r;
          hasDot = (case r1 of [] \<Rightarrow> False | c # _ \<Rightarrow> c = CHR ''.'');
          fp = (if hasDot then takeWhile isDigit (tl r1) else []);
          r2 = (if hasDot then dropWhile isDigit (tl r1) else r1);
          hasExp = (case r2 of [] \<Rightarrow> False | c # _ \<Rightarrow> c = CHR ''e'' \<or> c = CHR ''E'');
          r3 = (if hasExp then tl r2 else []);
          eneg = (case r3 of [] \<Rightarrow> False | c # _ \<Rightarrow> c = CHR ''-'');
          ed = (case r3 of [] \<Rightarrow> []
                | c # r' \<Rightarrow> if c = CHR ''-'' \<or> c = CHR ''+'' then r' else r3);
          wellFormed =
            ((ip \<noteq> [] \<or> fp \<noteq> [])
             \<and> (if hasDot then fp \<noteq> [] else True)
             \<and> (if hasExp then ed \<noteq> [] \<and> list_all isDigit ed else r2 = []));
          v = decimalValue ip fp (if eneg then - digitsValue ed else digitsValue ed);
          x = (if neg then - v else v)
      in if wellFormed \<and> isFinite (toDouble x) then Some x else None)"

definition valueMissing :: "string \<Rightarrow> bool" where
  "valueMissing v = (htmlNumber v = None)"

definition rangeUnderflow :: "rat \<Rightarrow> string \<Rightarrow> bool" where
  "rangeUnderflow minimum v =
     (case htmlNumber v of
        None \<Rightarrow> False
      | Some x \<Rightarrow> x < minimum)"

definition stepMismatch :: "rat \<Rightarrow> rat \<Rightarrow> string \<Rightarrow> bool" where
  "stepMismatch minimum stp v =
     (case htmlNumber v of
        None \<Rightarrow> False
      | Some x \<Rightarrow> of_int \<lfloor>(x - minimum) / stp\<rfloor> \<noteq> (x - minimum) / stp)"

definition amountInputValid :: "string \<Rightarrow> bool" where
  "amountInputValid v =
     (\<not> valueMissing v \<and> \<not> rangeUnderflow (1 / 100) v \<and> \<not> stepMismatch (1 / 100) (1 / 100) v)"

definition daysInMonth :: "int \<Rightarrow> int \<Rightarrow> int" where
  "daysInMonth y m =
     (if m \<in> {1, 3, 5, 7, 8, 10, 12} then 31
      else if m \<in> {4, 6, 9, 11} then 30
      else if y mod 400 = 0 \<or> (y mod 4 = 0 \<and> y mod 100 \<noteq> 0) then 29
      else 28)"

definition validDateString :: "string \<Rightarrow> bool" where
  "validDateString s =
     (let ys = takeWhile isDigit s;
          r = dropWhile isDigit s;
          y = digitsValue ys;
          m = digitsValue (take 2 (drop 1 r));
          d = digitsValue (take 2 (drop 4 r))
      in 4 \<le> length ys \<and> 0 < y
         \<and> length r = 6 \<and> take 1 r = ''-'' \<and> take 1 (drop 3 r) = ''-''
         \<and> list_all isDigit (take 2 (drop 1 r)) \<and> list_all isDigit (take 2 (drop 4 r))
         \<and> 1 \<le> m \<and> m \<le> 12 \<and> 1 \<le> d \<and> d \<le> daysInMonth y m)"

definition formValid :: "ExpenseForm \<Rightarrow> bool" where
  "formValid st =
     (amountInputValid (ExpenseForm.amount st)
      \<and> validDateString (ExpenseForm.date st)
      \<and> ExpenseForm.description st \<noteq> '''')"

definition submitForm :: "SubmitEnv \<Rightarrow> ExpenseForm \<Rightarrow> SubmitResult" where
  "submitForm env st =
     (if \<not> isSubmitting st \<and> formValid st then handleSubmit env st
      else \<lparr>state = st, sent = None, created = False\<rparr>)"

text \<open>
  What happens to the form: the user changes a field (the \<open>onChange\<close> handlers) or
  submits. \<open>step\<close> is one event; \<open>requests\<close> lists, for a sequence of events, every
  create request sent, with the environment of its submission and whether it succeeded;
  \<open>final\<close> is the state after the sequence.
\<close>

datatype FormEvent =
    ChangeAmount string
  | ChangeCategory string
  | ChangeDescription string
  | ChangeDate string
  | Submit SubmitEnv

record Attempt =
  env_of :: SubmitEnv
  input_of :: CreateExpenseInput
  succeeded :: bool

fun step :: "FormEvent \<Rightarrow> ExpenseForm \<Rightarrow> ExpenseForm \<times> Attempt list" where
  "step (ChangeAmount v) st = (st\<lparr>ExpenseForm.amount := v\<rparr>, [])"
| "step (ChangeCategory v) st = (st\<lparr>ExpenseForm.category := v\<rparr>, [])"
| "step (ChangeDescription v) st = (st\<lparr>ExpenseForm.description := v\<rparr>, [])"
| "step (ChangeDate v) st = (st\<lparr>ExpenseForm.date := v\<rparr>, [])"
| "step (Submit env) st =
     (let r = handleSubmit env st
      in (state r,
          case sent r of
            None \<Rightarrow> []
          | Some input \<Rightarrow> [\<lparr>env_of = env, input_of = input, succeeded = created r\<rparr>]))"

fun requests :: "FormEvent list \<Rightarrow> ExpenseForm \<Rightarrow> Attempt list" where
  "requests [] st = []"
| "requests (ev # evs) st = snd (step ev st) @ requests evs (fst (step ev st))"


text \<open>
  The description input of the create form has \<open>maxLength={500}\<close>: the browser does not
  let the user enter more than 500 UTF-16 code units, so the value that its \<open>onChange\<close>
  handler receives has at most 500 of them. \<open>length16\<close> counts the UTF-16 code units of a
  string from its UTF-8 bytes: one for every byte that begins a character, and one more
  for a character of four bytes. \<open>withinMaxLength\<close> holds for the events that the
  controls of the form can deliver.
\<close>

definition length16 :: "string \<Rightarrow> nat" where
  "length16 s =
     length (filter (\<lambda>c. \<not> (128 \<le> (of_char c :: nat) \<and> (of_char c :: nat) < 192)) s)
     + length (filter (\<lambda>c. 240 \<le> (of_char c :: nat)) s)"

fun withinMaxLength :: "FormEvent \<Rightarrow> bool" where
  "withinMaxLength (ChangeDescription v) = (length16 v \<le> 500)"
| "withinMaxLength _ = True"




text \<open>
  The key a submission sends: the stored one when there is a truthy one, a new one
  otherwise. \<open>keysFollow k as\<close> says that a list of attempts carries the keys of the
  form when \<open>k\<close> is the key stored before the first of them: each attempt sends the
  stored key or, when none is stored, its own new key, which is then stored until an
  attempt succeeds. \<open>keyAfter k as\<close> is the key stored after these attempts.
\<close>

definition submitKey :: "SubmitEnv \<Rightarrow> ExpenseForm \<Rightarrow> string" where
  "submitKey env st =
     or_string (currentIdempotencyKey st) (generateIdempotencyKey (now env) (random36 env))"



section \<open>The expense list (components/ExpenseList.tsx)\<close>

text \<open>
  The state of the component, one field for each \<open>useState\<close>; \<open>sortOrder\<close> is one of the
  two strings \<open>'date_desc'\<close> and \<open>'date_asc'\<close>. As for the form, a handler is modelled
  from its call to its end.
\<close>

datatype SortOrder = date_desc | date_asc

fun sortOrder_string :: "SortOrder \<Rightarrow> string" where
  "sortOrder_string date_desc = ''date_desc''"
| "sortOrder_string date_asc = ''date_asc''"

record EditForm =
  amount :: string
  category :: string
  description :: string
  date :: string

record ExpenseList =
  expenses :: "Expense list"
  isLoading :: bool
  error :: "string option"
  categoryFilter :: string
  sortOrder :: SortOrder
  currentPage :: int
  totalPages :: int
  totalItems :: int
  editingExpense :: "Expense option"
  editForm :: EditForm
  isEditSubmitting :: bool
  deletingId :: "string option"

definition itemsPerPage :: int where
  "itemsPerPage = 10"

text \<open>
  Reading \<open>response.data\<close> when \<open>getExpenses\<close> resolved with \<open>undefined\<close> throws a
  \<open>TypeError\<close>; its message is the engine's (here V8's).
\<close>

definition undefinedData :: js_error where
  "undefinedData = TypeError ''Cannot read properties of undefined (reading 'data')''"

text \<open>
  \<open>fetchExpenses\<close>: the parameters are the current page, the page size, the category
  filter when it is not empty, and the sort order.
\<close>

definition fetchExpenses_params :: "ExpenseList \<Rightarrow> GetExpensesParams" where
  "fetchExpenses_params st =
     \<lparr>GetExpensesParams.category =
        (if truthy (categoryFilter st) then Some (categoryFilter st) else None),
      sort = Some (sortOrder_string (sortOrder st)),
      page = Some (currentPage st),
      limit = Some itemsPerPage\<rparr>"

definition fetchExpenses ::
    "string \<Rightarrow> (FetchCall \<Rightarrow> js_error + (Expense PaginatedResponse) Response)
     \<Rightarrow> ExpenseList \<Rightarrow> ExpenseList" where
  "fetchExpenses base fetchGet st0 =
     (let st = st0\<lparr>isLoading := True, ExpenseList.error := None\<rparr>
      in case getExpenses base fetchGet (Some (fetchExpenses_params st0)) of
           Inr (Some response) \<Rightarrow>
             st\<lparr>expenses := data response,
                ExpenseList.totalPages := PaginatedResponse.totalPages response,
                totalItems := total response,
                isLoading := False\<rparr>
         | Inr None \<Rightarrow>
             st\<lparr>ExpenseList.error := Some (message undefinedData), isLoading := False\<rparr>
         | Inl err \<Rightarrow>
             st\<lparr>ExpenseList.error := Some (message err), isLoading := False\<rparr>)"




definition total_of :: "Expense list \<Rightarrow> number" where
  "total_of es = foldl (\<lambda>sum expense. add sum (Expense.amount expense)) (Num 0) es"



definition total :: "ExpenseList \<Rightarrow> number" where
  "total st = total_of (expenses st)"


text \<open>
  \<open>handleEditSubmit\<close>. The result is the state after the handler (after the
  \<open>fetchExpenses\<close> it starts on success, too) and the update it sent: the id and the
  input given to \<open>api.updateExpense\<close>, \<open>None\<close> when it returned before the call. The input
  has no \<open>idempotency_key\<close>.
\<close>

record EditResult =
  list_state :: ExpenseList
  update_sent :: "(string \<times> CreateExpenseInput) option"

definition handleEditSubmit ::
    "string \<Rightarrow> (FetchCall \<Rightarrow> js_error + Expense Response)
     \<Rightarrow> (FetchCall \<Rightarrow> js_error + (Expense PaginatedResponse) Response)
     \<Rightarrow> ExpenseList \<Rightarrow> EditResult" where
  "handleEditSubmit base fetchPut fetchGet st =
     (case editingExpense st of
        None \<Rightarrow> \<lparr>list_state = st, update_sent = None\<rparr>
      | Some editing \<Rightarrow>
          (let amountNum = parseFloat (EditForm.amount (editForm st))
           in if isNaN amountNum \<or> le_zero amountNum then
                \<lparr>list_state = st, update_sent = None\<rparr>
              else
                (let input =
                       \<lparr>CreateExpenseInput.amount = amountNum,
                        CreateExpenseInput.category = EditForm.category (editForm st),
                        CreateExpenseInput.description = trim (EditForm.description (editForm st)),
                        CreateExpenseInput.date = EditForm.date (editForm st),
                        idempotency_key = None\<rparr>
                 in case updateExpense base fetchPut (id editing) input of
                      Inr _ \<Rightarrow>
                        \<lparr>list_state =
                           fetchExpenses base fetchGet
                             (st\<lparr>editingExpense := None, isEditSubmitting := False\<rparr>),
                         update_sent = Some (id editing, input)\<rparr>
                    | Inl err \<Rightarrow>
                        \<lparr>list_state =
                           st\<lparr>ExpenseList.error := Some (message err), isEditSubmitting := False\<rparr>,
                         update_sent = Some (id editing, input)\<rparr>)))"

text \<open>
  \<open>handleExportCSV\<close>: \<open>{ category: categoryFilter || undefined, sort: sortOrder }\<close> are the
  parameters of its list request. The result is the state after the handler, the calls
  of \<open>fetch\<close> it made (one, made by \<open>request\<close> for \<open>getExpenses\<close>), and the download when
  there is one.
\<close>

definition handleExportCSV_params :: "ExpenseList \<Rightarrow> GetExpensesParams" where
  "handleExportCSV_params st =
     \<lparr>GetExpensesParams.category =
        (if truthy (categoryFilter st) then Some (categoryFilter st) else None),
      sort = Some (sortOrder_string (sortOrder st)),
      page = None,
      limit = None\<rparr>"

record ExportResult =
  export_state :: ExpenseList
  export_calls :: "FetchCall list"
  exported :: "Download option"

definition handleExportCSV ::
    "string \<Rightarrow> (FetchCall \<Rightarrow> js_error + (Expense PaginatedResponse) Response) \<Rightarrow> string
     \<Rightarrow> ExpenseList \<Rightarrow> ExportResult" where
  "handleExportCSV base fetchGet stamp st =
     (let calls =
            [request_call base (getExpenses_endpoint (Some (handleExportCSV_params st))) no_options]
      in case getExpenses base fetchGet (Some (handleExportCSV_params st)) of
           Inr (Some response) \<Rightarrow>
             \<lparr>export_state = st, export_calls = calls,
              exported = Some (exportToCSV stamp (data response))\<rparr>
         | Inr None \<Rightarrow>
             \<lparr>export_state = st\<lparr>ExpenseList.error := Some (message undefinedData)\<rparr>,
              export_calls = calls, exported = None\<rparr>
         | Inl err \<Rightarrow>
             \<lparr>export_state = st\<lparr>ExpenseList.error := Some (message err)\<rparr>,
              export_calls = calls, exported = None\<rparr>)"

section \<open>Auxiliary definitions\<close>


fun truthy_num :: "int option \<Rightarrow> bool" where
  "truthy_num None = False"
| "truthy_num (Some n) = (n \<noteq> 0)"

text \<open>
  \<open>twoFractionDigits s\<close>: the string is an optional minus sign, at least one digit, a
  point and two digits.
\<close>

definition integerPart :: "string \<Rightarrow> bool" where
  "integerPart a =
     (case a of
        [] \<Rightarrow> False
      | c # r \<Rightarrow> if c = CHR ''-'' then r \<noteq> [] \<and> list_all isDigit r
                 else list_all isDigit (c # r))"

definition twoFractionDigits :: "string \<Rightarrow> bool" where
  "twoFractionDigits s =
     (case rev s of
        d2 # d1 # p # a \<Rightarrow> isDigit d2 \<and> isDigit d1 \<and> p = CHR ''.'' \<and> integerPart (rev a)
      | _ \<Rightarrow> False)"

text \<open>
  \<open>belowE21 x\<close>: the number is finite and below \<open>10^21\<close> in absolute value;
  \<open>fromE21 x\<close>: it is finite and at least \<open>10^21\<close> in absolute value.
  \<open>exponentNotation s\<close>: the string ends with \<open>e+\<close> and one or more digits.
  \<open>linesOf s\<close> are the lines of a text, \<open>s.split('\n')\<close>.
\<close>

fun belowE21 :: "number \<Rightarrow> bool" where
  "belowE21 (Num r) = (\<bar>r\<bar> < 10 ^ 21)"
| "belowE21 MinusZero = True"
| "belowE21 _ = False"

fun fromE21 :: "number \<Rightarrow> bool" where
  "fromE21 (Num r) = (10 ^ 21 \<le> \<bar>r\<bar>)"
| "fromE21 _ = False"

definition exponentNotation :: "string \<Rightarrow> bool" where
  "exponentNotation s =
     (let ds = rev (takeWhile isDigit (rev s))
      in ds \<noteq> [] \<and> suffix (''e+'' @ ds) s)"

fun linesOf :: "string \<Rightarrow> string list" where
  "linesOf [] = [[]]"
| "linesOf (c # cs) =
     (case linesOf cs of
        [] \<Rightarrow> [[c]]
      | l # ls \<Rightarrow> if c = CHR 0x0A then [] # l # ls else (c # l) # ls)"

section \<open>Example values\<close>

text \<open>
  A record of the server, three states of the network (no connection, a server error, a
  server that creates the record), and a session of the create form: two failed
  submissions, a successful one, and a second expense.
\<close>

definition exampleExpense :: Expense where
  "exampleExpense =
     \<lparr>id = ''e1'', Expense.amount = Num (21 / 2), Expense.category = ''Food'',
      Expense.description = ''Lunch'', Expense.date = ''2024-01-15'',
      created_at = ''2024-01-15T10:30:00.000Z''\<rparr>"

definition offlineEnv :: SubmitEnv where
  "offlineEnv =
     \<lparr>now = 1700000000000, random36 = ''0.4fzyo82mvyr'', isoNow = ''2023-11-14T22:13:20.000Z'',
      NEXT_PUBLIC_API_URL = None, fetchPost = (\<lambda>call. Inl (TypeError ''Failed to fetch''))\<rparr>"




text \<open>
  The list as it is mounted, and a server that answers every list request with the same
  page of three expenses.
\<close>

definition initialExpenseList :: ExpenseList where
  "initialExpenseList =
     \<lparr>expenses = [], isLoading = True, ExpenseList.error = None, categoryFilter = '''',
      sortOrder = date_desc, currentPage = 1, ExpenseList.totalPages = 1, totalItems = 0,
      editingExpense = None,
      editForm = \<lparr>EditForm.amount = '''', EditForm.category = '''',
                  EditForm.description = '''', EditForm.date = ''''\<rparr>,
      isEditSubmitting = False, deletingId = None\<rparr>"

definition examplePage :: "Expense PaginatedResponse" where
  "examplePage =
     \<lparr>data =
        [\<lparr>id = ''a'', Expense.amount = Num (201 / 2), Expense.category = ''Food'',
          Expense.description = ''Lunch'', Expense.date = ''2024-01-10'',
          created_at = ''2024-01-10T09:00:00.000Z''\<rparr>,
         \<lparr>id = ''b'', Expense.amount = Num 50, Expense.category = ''Transport'',
          Expense.description = ''Taxi'', Expense.date = ''2024-01-15'',
          created_at = ''2024-01-15T09:00:00.000Z''\<rparr>,
         \<lparr>id = ''c'', Expense.amount = Num 20, Expense.category = ''Food'',
          Expense.description = ''Tea'', Expense.date = ''2024-02-01'',
          created_at = ''2024-02-01T09:00:00.000Z''\<rparr>],
      total = 25, page = 1, limit = 10, totalPages = 3\<rparr>"

definition examplePageFetch :: "FetchCall \<Rightarrow> js_error + (Expense PaginatedResponse) Response" where
  "examplePageFetch call =
     Inr \<lparr>status = 200,
          json = JSON examplePage \<lparr>ApiError.error = None, details = None\<rparr>\<rparr>"

text \<open>
  A page with the amounts 0.1, 0.2 and 0.3, and a page with an expense whose category is
  \<open>constructor\<close> and three expenses of the amounts \<open>Infinity\<close>, \<open>-Infinity\<close> and 5, with a
  server that answers every list request with it.
\<close>

definition centsPage :: "Expense PaginatedResponse" where
  "centsPage =
     \<lparr>data =
        [\<lparr>id = ''p'', Expense.amount = toDouble (1 / 10), Expense.category = ''Food'',
          Expense.description = ''Gum'', Expense.date = ''2024-01-10'',
          created_at = ''2024-01-10T09:00:00.000Z''\<rparr>,
         \<lparr>id = ''q'', Expense.amount = toDouble (2 / 10), Expense.category = ''Food'',
          Expense.description = ''Mint'', Expense.date = ''2024-01-11'',
          created_at = ''2024-01-11T09:00:00.000Z''\<rparr>,
         \<lparr>id = ''r'', Expense.amount = toDouble (3 / 10), Expense.category = ''Food'',
          Expense.description = ''Candy'', Expense.date = ''2024-01-12'',
          created_at = ''2024-01-12T09:00:00.000Z''\<rparr>],
      total = 3, page = 1, limit = 10, totalPages = 1\<rparr>"



text \<open>
  An expense whose description has two lines.
\<close>

definition twoLineExpense :: Expense where
  "twoLineExpense =
     \<lparr>id = ''t'', Expense.amount = Num 12000, Expense.category = ''Bills'',
      Expense.description = ''Rent'' @ [CHR 0x0A] @ ''and deposit'', Expense.date = ''2024-03-01'',
      created_at = ''2024-03-01T09:00:00.000Z''\<rparr>"

text \<open>
  An expense of amount \<open>2^70\<close>; a server that answers the delete request with a given
  status and body; a server that answers every request with status 400 and a given error
  body; a create form with a given amount and description; and the list with the first
  expense of the page being edited, its description replaced by three spaces.
\<close>

definition hugeExpense :: Expense where
  "hugeExpense =
     \<lparr>id = ''h'', Expense.amount = Num (2 ^ 70), Expense.category = ''Other'',
      Expense.description = ''Land'', Expense.date = ''2024-03-01'',
      created_at = ''2024-03-01T09:00:00.000Z''\<rparr>"

definition exampleDeleteFetch :: "nat \<Rightarrow> Expense body \<Rightarrow> FetchCall \<Rightarrow> js_error + Expense Response" where
  "exampleDeleteFetch code b call =
     (if init call = \<lparr>method' = Some ''DELETE'', body = None,
                       headers = [(''Content-Type'', ''application/json'')]\<rparr>
      then Inr \<lparr>status = code, json = b\<rparr>
      else Inl (TypeError ''Failed to fetch''))"

definition exampleErrorFetch :: "ApiError \<Rightarrow> FetchCall \<Rightarrow> js_error + Expense Response" where
  "exampleErrorFetch e call = Inr \<lparr>status = 400, json = JSON exampleExpense e\<rparr>"

definition formWith :: "string \<Rightarrow> string \<Rightarrow> ExpenseForm" where
  "formWith a d =
     (initialExpenseForm ''2023-11-14T22:00:00.000Z'')
       \<lparr>ExpenseForm.amount := a, ExpenseForm.description := d\<rparr>"

definition editingBlank :: ExpenseList where
  "editingBlank =
     initialExpenseList
       \<lparr>expenses := data examplePage,
        editingExpense := Some (hd (data examplePage)),
        editForm := \<lparr>EditForm.amount = ''100.5'', EditForm.category = ''Food'',
                     EditForm.description = ''   '', EditForm.date = ''2024-01-10''\<rparr>\<rparr>"

text \<open>
  The list with the first expense of the page being edited and a description of 501
  letters in the edit form; a network without connection for the update request.
\<close>

definition editingLong :: ExpenseList where
  "editingLong =
     initialExpenseList
       \<lparr>expenses := data examplePage,
        editingExpense := Some (hd (data examplePage)),
        editForm := \<lparr>EditForm.amount = ''100.5'', EditForm.category = ''Food'',
                     EditForm.description = replicate 501 CHR ''a'',
                     EditForm.date = ''2024-01-10''\<rparr>\<rparr>"

definition offlinePut :: "FetchCall \<Rightarrow> js_error + Expense Response" where
  "offlinePut call = Inl (TypeError ''Failed to fetch'')"

section \<open>The idempotency key of the create form\<close>

lemma generateIdempotencyKey_truthy: "truthy (generateIdempotencyKey t r)"
  by (simp add: generateIdempotencyKey_def truthy_def)

lemma or_string_truthy: "truthy b \<Longrightarrow> truthy (or_string a b)"
  by (cases a) auto

lemma submitKey_truthy: "truthy (submitKey env st)"
  by (simp add: submitKey_def or_string_truthy generateIdempotencyKey_truthy)





















section \<open>The summaries of the expense list\<close>




























text \<open>
  The sums are those of doubles: for a page with the amounts 0.1, 0.2 and 0.3 the total
  is the double that prints as \<open>0.6000000000000001\<close>.
\<close>

lemma total_of_cents:
  "Number_toString (total (initialExpenseList\<lparr>expenses := data centsPage\<rparr>)) = ''0.6000000000000001''"
  by code_simp


section \<open>The query parameters of the list request\<close>

lemma searchParams_set_new:
  "k \<notin> fst ` set ps \<Longrightarrow> searchParams_set k v ps = ps @ [(k, v)]"
  by (induction ps) auto

lemma getExpenses_searchParams_eq:
  "getExpenses_searchParams params =
     (case Option.bind params GetExpensesParams.category of
        Some c \<Rightarrow> if c \<noteq> [] then [(''category'', c)] else [] | None \<Rightarrow> [])
   @ (case Option.bind params GetExpensesParams.sort of
        Some s \<Rightarrow> if s \<noteq> [] then [(''sort'', s)] else [] | None \<Rightarrow> [])
   @ (case Option.bind params GetExpensesParams.page of
        Some n \<Rightarrow> if n \<noteq> 0 then [(''page'', Number_toString (ofInt n))] else [] | None \<Rightarrow> [])
   @ (case Option.bind params GetExpensesParams.limit of
        Some n \<Rightarrow> if n \<noteq> 0 then [(''limit'', Number_toString (ofInt n))] else [] | None \<Rightarrow> [])"
  by (simp add: getExpenses_searchParams_def Let_def truthy_def searchParams_set_new
      split: option.splits)

lemma join_nonempty:
  "xs \<noteq> [] \<Longrightarrow> \<forall>x \<in> set xs. x \<noteq> [] \<Longrightarrow> join sep xs \<noteq> []"
  by (induction sep xs rule: join.induct) auto

lemma searchParams_toString_empty: "searchParams_toString ps = [] \<longleftrightarrow> ps = []"
proof
  assume e: "searchParams_toString ps = []"
  show "ps = []"
  proof (rule ccontr)
    assume "ps \<noteq> []"
    then have "join ''&'' (map (\<lambda>p. urlencode (fst p) @ ''='' @ urlencode (snd p)) ps) \<noteq> []"
      by (intro join_nonempty) auto
    with e show False by (simp add: searchParams_toString_def)
  qed
next
  assume "ps = []"
  then show "searchParams_toString ps = []" by (simp add: searchParams_toString_def)
qed

lemma getExpenses_searchParams_keys:
  "map fst (getExpenses_searchParams params) =
     (if truthy_opt (Option.bind params GetExpensesParams.category) then [''category''] else [])
   @ (if truthy_opt (Option.bind params GetExpensesParams.sort) then [''sort''] else [])
   @ (if truthy_num (Option.bind params GetExpensesParams.page) then [''page''] else [])
   @ (if truthy_num (Option.bind params GetExpensesParams.limit) then [''limit''] else [])"
  unfolding getExpenses_searchParams_eq
  by (simp add: truthy_def split: option.splits)

text \<open>
  C10. \<open>getExpenses\<close> sets a query parameter exactly when its value is present and
  truthy: the search parameters contain \<open>category\<close> (\<open>sort\<close>) exactly when the
  category (sort) is given and not the empty string, and \<open>page\<close> (\<open>limit\<close>) exactly when
  the page (limit) is given and not \<open>0\<close>. The endpoint is \<open>/expenses\<close> exactly when no
  parameter is set, and \<open>/expenses?\<close> followed by the serialised parameters otherwise;
  the URL requested is the base URL followed by the endpoint.
\<close>

theorem getExpenses_omits_falsy_parameters:
  "(''category'' \<in> set (map fst (getExpenses_searchParams params)) \<longleftrightarrow>
      truthy_opt (Option.bind params GetExpensesParams.category))
   \<and> (''sort'' \<in> set (map fst (getExpenses_searchParams params)) \<longleftrightarrow>
      truthy_opt (Option.bind params GetExpensesParams.sort))
   \<and> (''page'' \<in> set (map fst (getExpenses_searchParams params)) \<longleftrightarrow>
      truthy_num (Option.bind params GetExpensesParams.page))
   \<and> (''limit'' \<in> set (map fst (getExpenses_searchParams params)) \<longleftrightarrow>
      truthy_num (Option.bind params GetExpensesParams.limit))
   \<and> getExpenses_endpoint params =
        (if getExpenses_searchParams params = [] then ''/expenses''
         else ''/expenses?'' @ searchParams_toString (getExpenses_searchParams params))
   \<and> (getExpenses_searchParams params = [] \<longleftrightarrow>
        \<not> truthy_opt (Option.bind params GetExpensesParams.category)
        \<and> \<not> truthy_opt (Option.bind params GetExpensesParams.sort)
        \<and> \<not> truthy_num (Option.bind params GetExpensesParams.page)
        \<and> \<not> truthy_num (Option.bind params GetExpensesParams.limit))
   \<and> url (request_call base (getExpenses_endpoint params) no_options) =
        base @ getExpenses_endpoint params"
proof -
  let ?keys = "map fst (getExpenses_searchParams params)"
  have c: "''category'' \<in> set ?keys \<longleftrightarrow>
      truthy_opt (Option.bind params GetExpensesParams.category)"
    unfolding getExpenses_searchParams_keys by simp
  have s: "''sort'' \<in> set ?keys \<longleftrightarrow>
      truthy_opt (Option.bind params GetExpensesParams.sort)"
    unfolding getExpenses_searchParams_keys by simp
  have p: "''page'' \<in> set ?keys \<longleftrightarrow>
      truthy_num (Option.bind params GetExpensesParams.page)"
    unfolding getExpenses_searchParams_keys by simp
  have l: "''limit'' \<in> set ?keys \<longleftrightarrow>
      truthy_num (Option.bind params GetExpensesParams.limit)"
    unfolding getExpenses_searchParams_keys by simp
  have e: "getExpenses_endpoint params =
        (if getExpenses_searchParams params = [] then ''/expenses''
         else ''/expenses?'' @ searchParams_toString (getExpenses_searchParams params))"
    by (simp add: getExpenses_endpoint_def Let_def truthy_def searchParams_toString_empty)
  have "?keys = [] \<longleftrightarrow>
        \<not> truthy_opt (Option.bind params GetExpensesParams.category)
        \<and> \<not> truthy_opt (Option.bind params GetExpensesParams.sort)
        \<and> \<not> truthy_num (Option.bind params GetExpensesParams.page)
        \<and> \<not> truthy_num (Option.bind params GetExpensesParams.limit)"
    unfolding getExpenses_searchParams_keys by simp
  then have n: "getExpenses_searchParams params = [] \<longleftrightarrow>
        \<not> truthy_opt (Option.bind params GetExpensesParams.category)
        \<and> \<not> truthy_opt (Option.bind params GetExpensesParams.sort)
        \<and> \<not> truthy_num (Option.bind params GetExpensesParams.page)
        \<and> \<not> truthy_num (Option.bind params GetExpensesParams.limit)"
    by simp
  have u: "url (request_call base (getExpenses_endpoint params) no_options) =
        base @ getExpenses_endpoint params"
    by (simp add: request_call_def)
  from c s p l e n u show ?thesis by blast
qed

theorem getExpenses_omits_falsy_parameters_witness:
  "getExpenses_endpoint
     (Some \<lparr>GetExpensesParams.category = Some '''', sort = None, page = Some 0, limit = Some 0\<rparr>)
     = ''/expenses''
   \<and> getExpenses_endpoint None = ''/expenses''
   \<and> map fst (getExpenses_searchParams
       (Some \<lparr>GetExpensesParams.category = Some ''Food'', sort = Some ''date_asc'',
              page = Some 2, limit = Some 0\<rparr>)) = [''category'', ''sort'', ''page'']"
  using getExpenses_omits_falsy_parameters
      [of "Some \<lparr>GetExpensesParams.category = Some '''', sort = None, page = Some 0, limit = Some 0\<rparr>"]
    getExpenses_omits_falsy_parameters [of None]
    getExpenses_searchParams_keys
      [of "Some \<lparr>GetExpensesParams.category = Some ''Food'', sort = Some ''date_asc'',
              page = Some 2, limit = Some 0\<rparr>"]
  by (simp add: truthy_def)

section \<open>The request of the CSV export\<close>

lemma urlencode_category: "urlencode ''category'' = ''category''"
  by (simp add: urlencode_def urlencodeByte_def)

lemma urlencode_sort: "urlencode ''sort'' = ''sort''"
  by (simp add: urlencode_def urlencodeByte_def)

lemma urlencode_sortOrder: "urlencode (sortOrder_string so) = sortOrder_string so"
  by (cases so) (simp_all add: urlencode_def urlencodeByte_def)

lemma sortOrder_string_nonempty: "sortOrder_string so \<noteq> []"
  by (cases so) simp_all

lemma export_searchParams:
  "getExpenses_searchParams (Some (handleExportCSV_params st)) =
     (if categoryFilter st = '''' then [] else [(''category'', categoryFilter st)])
     @ [(''sort'', sortOrder_string (sortOrder st))]"
  by (simp add: getExpenses_searchParams_eq handleExportCSV_params_def truthy_def
      sortOrder_string_nonempty)

lemma list_searchParams:
  "getExpenses_searchParams (Some (fetchExpenses_params st)) =
     (if categoryFilter st = '''' then [] else [(''category'', categoryFilter st)])
     @ [(''sort'', sortOrder_string (sortOrder st))]
     @ (if currentPage st = 0 then [] else [(''page'', Number_toString (ofInt (currentPage st)))])
     @ [(''limit'', Number_toString (ofInt itemsPerPage))]"
  by (simp add: getExpenses_searchParams_eq fetchExpenses_params_def truthy_def
      sortOrder_string_nonempty itemsPerPage_def)

lemma export_endpoint:
  "getExpenses_endpoint (Some (handleExportCSV_params st)) =
     ''/expenses?''
     @ (if categoryFilter st = '''' then '''' else ''category='' @ urlencode (categoryFilter st) @ ''&'')
     @ ''sort='' @ sortOrder_string (sortOrder st)"
  by (simp add: getExpenses_endpoint_def Let_def truthy_def searchParams_toString_empty
      export_searchParams searchParams_toString_def urlencode_category urlencode_sort
      urlencode_sortOrder)

lemma export_calls_eq:
  "export_calls (handleExportCSV base fetchGet stamp st) =
     [request_call base (getExpenses_endpoint (Some (handleExportCSV_params st))) no_options]"
  by (simp add: handleExportCSV_def Let_def split: sum.splits option.splits)

lemma export_depends_on_one_call:
  "fetchGet' (request_call base (getExpenses_endpoint (Some (handleExportCSV_params st))) no_options)
     = fetchGet (request_call base (getExpenses_endpoint (Some (handleExportCSV_params st))) no_options)
   \<Longrightarrow> handleExportCSV base fetchGet' stamp st = handleExportCSV base fetchGet stamp st"
  by (simp add: handleExportCSV_def getExpenses_def request_def)

text \<open>
  C5. \<open>handleExportCSV\<close> issues one list request, and what it does depends on the
  network through the answer to this request only. The URL of the request carries the
  category of the current filter (no category parameter when the filter is empty) and
  the current sort order, and no page or limit parameter; its search parameters are
  those of the request of the list view (\<open>fetchExpenses\<close>) without \<open>page\<close> and \<open>limit\<close>.
  The outcome of the handler is determined by the answer of the network to exactly this
  call: the download is the CSV text of the \<open>data\<close> of the answer when the answer is ok
  and has a JSON body, and there is no download and an error message otherwise (the
  request was rejected, the status is 204 so that there is no response object to read
  \<open>data\<close> from, the body is not JSON, or the status is not ok).
\<close>

theorem export_request_filter_sort_no_page:
  "export_calls (handleExportCSV base fetchGet stamp st) =
     [\<lparr>url = base @ ''/expenses?''
         @ (if categoryFilter st = '''' then ''''
            else ''category='' @ urlencode (categoryFilter st) @ ''&'')
         @ ''sort='' @ sortOrder_string (sortOrder st),
       init = \<lparr>method' = None, body = None,
               headers = [(''Content-Type'', ''application/json'')]\<rparr>\<rparr>]
   \<and> (\<forall>fetchGet'.
         (\<forall>call \<in> set (export_calls (handleExportCSV base fetchGet stamp st)).
            fetchGet' call = fetchGet call) \<longrightarrow>
         handleExportCSV base fetchGet' stamp st = handleExportCSV base fetchGet stamp st)
   \<and> getExpenses_searchParams (Some (handleExportCSV_params st)) =
       (if categoryFilter st = '''' then [] else [(''category'', categoryFilter st)])
       @ [(''sort'', sortOrder_string (sortOrder st))]
   \<and> getExpenses_searchParams (Some (handleExportCSV_params st)) =
       filter (\<lambda>p. fst p \<noteq> ''page'' \<and> fst p \<noteq> ''limit'')
         (getExpenses_searchParams (Some (fetchExpenses_params st)))
   \<and> exported (handleExportCSV base fetchGet stamp st) =
       (case fetchGet
             \<lparr>url = base @ ''/expenses?''
                @ (if categoryFilter st = '''' then ''''
                   else ''category='' @ urlencode (categoryFilter st) @ ''&'')
                @ ''sort='' @ sortOrder_string (sortOrder st),
              init = \<lparr>method' = None, body = None,
                      headers = [(''Content-Type'', ''application/json'')]\<rparr>\<rparr> of
          Inl err \<Rightarrow> None
        | Inr response \<Rightarrow>
            if status response = 204 then None
            else
              (case json response of
                 NotJSON m \<Rightarrow> None
               | JSON listed e \<Rightarrow>
                   if ok response then Some (exportToCSV stamp (data listed)) else None))
   \<and> export_state (handleExportCSV base fetchGet stamp st) =
       (case fetchGet
             \<lparr>url = base @ ''/expenses?''
                @ (if categoryFilter st = '''' then ''''
                   else ''category='' @ urlencode (categoryFilter st) @ ''&'')
                @ ''sort='' @ sortOrder_string (sortOrder st),
              init = \<lparr>method' = None, body = None,
                      headers = [(''Content-Type'', ''application/json'')]\<rparr>\<rparr> of
          Inl err \<Rightarrow> st\<lparr>ExpenseList.error := Some (message err)\<rparr>
        | Inr response \<Rightarrow>
            if status response = 204 then st\<lparr>ExpenseList.error := Some (message undefinedData)\<rparr>
            else
              (case json response of
                 NotJSON m \<Rightarrow> st\<lparr>ExpenseList.error := Some m\<rparr>
               | JSON listed e \<Rightarrow>
                   if ok response then st
                   else st\<lparr>ExpenseList.error := Some (error_message e)\<rparr>))"
proof -
  have only: "\<forall>fetchGet'.
         (\<forall>call \<in> set (export_calls (handleExportCSV base fetchGet stamp st)).
            fetchGet' call = fetchGet call) \<longrightarrow>
         handleExportCSV base fetchGet' stamp st = handleExportCSV base fetchGet stamp st"
  proof (intro allI impI)
    fix fetchGet'
    assume "\<forall>call \<in> set (export_calls (handleExportCSV base fetchGet stamp st)).
              fetchGet' call = fetchGet call"
    then have "fetchGet'
          (request_call base (getExpenses_endpoint (Some (handleExportCSV_params st))) no_options)
        = fetchGet
          (request_call base (getExpenses_endpoint (Some (handleExportCSV_params st))) no_options)"
      by (simp add: export_calls_eq)
    then show "handleExportCSV base fetchGet' stamp st = handleExportCSV base fetchGet stamp st"
      by (rule export_depends_on_one_call)
  qed
  have calls: "export_calls (handleExportCSV base fetchGet stamp st) =
     [\<lparr>url = base @ ''/expenses?''
         @ (if categoryFilter st = '''' then ''''
            else ''category='' @ urlencode (categoryFilter st) @ ''&'')
         @ ''sort='' @ sortOrder_string (sortOrder st),
       init = \<lparr>method' = None, body = None,
               headers = [(''Content-Type'', ''application/json'')]\<rparr>\<rparr>]"
    by (simp add: export_calls_eq export_endpoint request_call_def no_options_def)
  have same: "getExpenses_searchParams (Some (handleExportCSV_params st)) =
       filter (\<lambda>p. fst p \<noteq> ''page'' \<and> fst p \<noteq> ''limit'')
         (getExpenses_searchParams (Some (fetchExpenses_params st)))"
    by (simp add: export_searchParams list_searchParams)
  have call: "request_call base (getExpenses_endpoint (Some (handleExportCSV_params st))) no_options =
            \<lparr>url = base @ ''/expenses?''
                @ (if categoryFilter st = '''' then ''''
                   else ''category='' @ urlencode (categoryFilter st) @ ''&'')
                @ ''sort='' @ sortOrder_string (sortOrder st),
              init = \<lparr>method' = None, body = None,
                      headers = [(''Content-Type'', ''application/json'')]\<rparr>\<rparr>"
    by (simp add: export_endpoint request_call_def no_options_def)
  have result: "exported (handleExportCSV base fetchGet stamp st) =
       (case fetchGet
             \<lparr>url = base @ ''/expenses?''
                @ (if categoryFilter st = '''' then ''''
                   else ''category='' @ urlencode (categoryFilter st) @ ''&'')
                @ ''sort='' @ sortOrder_string (sortOrder st),
              init = \<lparr>method' = None, body = None,
                      headers = [(''Content-Type'', ''application/json'')]\<rparr>\<rparr> of
          Inl err \<Rightarrow> None
        | Inr response \<Rightarrow>
            if status response = 204 then None
            else
              (case json response of
                 NotJSON m \<Rightarrow> None
               | JSON listed e \<Rightarrow>
                   if ok response then Some (exportToCSV stamp (data listed)) else None))
   \<and> export_state (handleExportCSV base fetchGet stamp st) =
       (case fetchGet
             \<lparr>url = base @ ''/expenses?''
                @ (if categoryFilter st = '''' then ''''
                   else ''category='' @ urlencode (categoryFilter st) @ ''&'')
                @ ''sort='' @ sortOrder_string (sortOrder st),
              init = \<lparr>method' = None, body = None,
                      headers = [(''Content-Type'', ''application/json'')]\<rparr>\<rparr> of
          Inl err \<Rightarrow> st\<lparr>ExpenseList.error := Some (message err)\<rparr>
        | Inr response \<Rightarrow>
            if status response = 204 then st\<lparr>ExpenseList.error := Some (message undefinedData)\<rparr>
            else
              (case json response of
                 NotJSON m \<Rightarrow> st\<lparr>ExpenseList.error := Some m\<rparr>
               | JSON listed e \<Rightarrow>
                   if ok response then st
                   else st\<lparr>ExpenseList.error := Some (error_message e)\<rparr>))"
    unfolding call [symmetric]
    by (simp add: handleExportCSV_def getExpenses_def request_def Let_def
        split: sum.splits body.splits)
  from calls only export_searchParams same result show ?thesis by blast
qed

lemma examplePageFetch_answer:
  "examplePageFetch call =
     Inr \<lparr>status = 200, json = JSON examplePage \<lparr>ApiError.error = None, details = None\<rparr>\<rparr>"
  "ok \<lparr>status = 200, json = JSON examplePage \<lparr>ApiError.error = None, details = None\<rparr>\<rparr>"
  by (simp_all add: examplePageFetch_def ok_def)

theorem export_request_filter_sort_no_page_witness:
  "export_calls (handleExportCSV ''http://localhost:3001'' examplePageFetch
       ''2024-02-02T10:00:00.000Z'' (initialExpenseList\<lparr>categoryFilter := ''Food''\<rparr>)) =
     [\<lparr>url = ''http://localhost:3001/expenses?category=Food&sort=date_desc'',
       init = \<lparr>method' = None, body = None,
               headers = [(''Content-Type'', ''application/json'')]\<rparr>\<rparr>]
   \<and> export_calls (handleExportCSV ''http://localhost:3001'' examplePageFetch
       ''2024-02-02T10:00:00.000Z'' (initialExpenseList\<lparr>sortOrder := date_asc\<rparr>)) =
     [\<lparr>url = ''http://localhost:3001/expenses?sort=date_asc'',
       init = \<lparr>method' = None, body = None,
               headers = [(''Content-Type'', ''application/json'')]\<rparr>\<rparr>]
   \<and> exported (handleExportCSV ''http://localhost:3001'' examplePageFetch
       ''2024-02-02T10:00:00.000Z'' (initialExpenseList\<lparr>categoryFilter := ''Food''\<rparr>)) =
     Some (exportToCSV ''2024-02-02T10:00:00.000Z'' (data examplePage))"
  using export_request_filter_sort_no_page [of "''http://localhost:3001''" examplePageFetch
      "''2024-02-02T10:00:00.000Z''" "initialExpenseList\<lparr>categoryFilter := ''Food''\<rparr>",
      THEN conjunct1]
    export_request_filter_sort_no_page [of "''http://localhost:3001''" examplePageFetch
      "''2024-02-02T10:00:00.000Z''" "initialExpenseList\<lparr>sortOrder := date_asc\<rparr>",
      THEN conjunct1]
    export_request_filter_sort_no_page [of "''http://localhost:3001''" examplePageFetch
      "''2024-02-02T10:00:00.000Z''" "initialExpenseList\<lparr>categoryFilter := ''Food''\<rparr>",
      THEN conjunct2, THEN conjunct2, THEN conjunct2, THEN conjunct2, THEN conjunct1]
  by (simp add: initialExpenseList_def urlencode_def urlencodeByte_def examplePageFetch_answer)

section \<open>The responses of the server\<close>

text \<open>
  C6. For every answer to the delete request: when its status is 204, \<open>deleteExpense\<close>
  resolves with \<open>undefined\<close>, whatever the body is (also a body that is not JSON, whose
  parsing would throw: the body is not parsed); when the response is not ok (a status
  outside 200 to 299, such as 404), it throws and returns no record: the syntax error of
  \<open>response.json()\<close> when the body is not JSON, and otherwise an \<open>Error\<close> with the message
  taken from the error body.
\<close>

theorem deleteExpense_204_and_errors:
  assumes "fetch (request_call base (''/expenses/'' @ i)
             \<lparr>method' = Some ''DELETE'', body = None, headers = []\<rparr>) = Inr response"
  shows "(status response = 204 \<longrightarrow> deleteExpense base fetch i = Inr None)
       \<and> (\<not> ok response \<longrightarrow>
            deleteExpense base fetch i =
              Inl (case json response of
                     NotJSON m \<Rightarrow> SyntaxError m
                   | JSON d e \<Rightarrow> Error (error_message e)))"
  using assms by (auto simp: deleteExpense_def request_def ok_def split: body.splits)

theorem deleteExpense_204_and_errors_witness:
  "deleteExpense ''http://localhost:3001''
     (exampleDeleteFetch 204 (NotJSON ''Unexpected end of JSON input'')) ''a'' = Inr None
   \<and> \<not> ok \<lparr>status = 404, json = JSON exampleExpense
                 \<lparr>ApiError.error = Some ''Expense not found'', details = None\<rparr>\<rparr>
   \<and> deleteExpense ''http://localhost:3001''
       (exampleDeleteFetch 404
          (JSON exampleExpense \<lparr>ApiError.error = Some ''Expense not found'', details = None\<rparr>))
       ''a'' = Inl (Error ''Expense not found'')"
  using deleteExpense_204_and_errors
      [where fetch = "exampleDeleteFetch 204 (NotJSON ''Unexpected end of JSON input'')"
         and base = "''http://localhost:3001''" and i = "''a''"
         and response = "\<lparr>status = 204, json = NotJSON ''Unexpected end of JSON input''\<rparr>"]
    deleteExpense_204_and_errors
      [where fetch = "exampleDeleteFetch 404
            (JSON exampleExpense \<lparr>ApiError.error = Some ''Expense not found'', details = None\<rparr>)"
         and base = "''http://localhost:3001''" and i = "''a''"
         and response = "\<lparr>status = 404, json = JSON exampleExpense
            \<lparr>ApiError.error = Some ''Expense not found'', details = None\<rparr>\<rparr>"]
  by (simp add: exampleDeleteFetch_def request_call_def ok_def error_message_def truthy_def)

lemma join_empty_iff: "join '', '' ds = [] \<longleftrightarrow> ds = [] \<or> ds = ['''']"
  by (induction "'', ''" ds rule: join.induct) auto

text \<open>
  C7, as the code has it. For every response that is not ok and has a JSON body,
  \<open>request\<close> throws an \<open>Error\<close> whose message is: the elements of \<open>details\<close> joined by a
  comma and a space, when \<open>details\<close> is an array whose joined text is not empty, that is
  every non-empty array but \<open>['']\<close>; the \<open>error\<close> field, when \<open>details\<close> is absent, empty or
  \<open>['']\<close> and \<open>error\<close> is a non-empty string; and \<open>Request failed\<close> when \<open>error\<close> is absent
  or empty, too.
\<close>

theorem error_message_of_response:
  assumes "fetch (request_call base endpoint options) = Inr response"
    and "\<not> ok response" and "json response = JSON d e"
  shows "request base fetch endpoint options = Inl (Error (error_message e))
       \<and> (\<forall>ds. details e = Some ds \<and> ds \<noteq> [] \<and> ds \<noteq> [''''] \<longrightarrow>
             error_message e = join '', '' ds)
       \<and> (\<forall>m. (details e = None \<or> details e = Some [] \<or> details e = Some [''''])
               \<and> ApiError.error e = Some m \<and> m \<noteq> '''' \<longrightarrow> error_message e = m)
       \<and> ((details e = None \<or> details e = Some [] \<or> details e = Some [''''])
               \<and> (ApiError.error e = None \<or> ApiError.error e = Some '''') \<longrightarrow>
             error_message e = ''Request failed'')"
proof -
  have r: "request base fetch endpoint options = Inl (Error (error_message e))"
    using assms by (auto simp: request_def ok_def)
  have a: "\<forall>ds. details e = Some ds \<and> ds \<noteq> [] \<and> ds \<noteq> [''''] \<longrightarrow>
             error_message e = join '', '' ds"
    by (auto simp: error_message_def truthy_def join_empty_iff)
  have b: "\<forall>m. (details e = None \<or> details e = Some [] \<or> details e = Some [''''])
               \<and> ApiError.error e = Some m \<and> m \<noteq> '''' \<longrightarrow> error_message e = m"
    by (auto simp: error_message_def truthy_def)
  have c: "(details e = None \<or> details e = Some [] \<or> details e = Some [''''])
               \<and> (ApiError.error e = None \<or> ApiError.error e = Some '''') \<longrightarrow>
             error_message e = ''Request failed''"
    by (auto simp: error_message_def truthy_def)
  from r a b c show ?thesis by blast
qed

theorem error_message_of_response_witness:
  "\<not> ok \<lparr>status = 400, json = JSON exampleExpense
        \<lparr>ApiError.error = Some ''Validation failed'',
         details = Some [''Amount must be greater than 0'', ''Description is required'']\<rparr>\<rparr>
   \<and> request ''http://localhost:3001''
         (exampleErrorFetch \<lparr>ApiError.error = Some ''Validation failed'',
            details = Some [''Amount must be greater than 0'', ''Description is required'']\<rparr>)
         ''/expenses'' no_options
       = (Inl (Error ''Amount must be greater than 0, Description is required'')
            :: js_error + Expense option)
   \<and> error_message \<lparr>ApiError.error = Some ''Expense not found'', details = None\<rparr>
       = ''Expense not found''
   \<and> error_message \<lparr>ApiError.error = None, details = Some []\<rparr> = ''Request failed''"
  using error_message_of_response
      [where fetch = "exampleErrorFetch \<lparr>ApiError.error = Some ''Validation failed'',
            details = Some [''Amount must be greater than 0'', ''Description is required'']\<rparr>"
         and base = "''http://localhost:3001''" and endpoint = "''/expenses''"
         and options = no_options
         and response = "\<lparr>status = 400, json = JSON exampleExpense
            \<lparr>ApiError.error = Some ''Validation failed'',
             details = Some [''Amount must be greater than 0'', ''Description is required'']\<rparr>\<rparr>"
         and d = exampleExpense
         and e = "\<lparr>ApiError.error = Some ''Validation failed'',
            details = Some [''Amount must be greater than 0'', ''Description is required'']\<rparr>"]
  by (simp add: exampleErrorFetch_def ok_def error_message_def truthy_def)

text \<open>
  C7 as stated fails for one array: \<open>['']\<close> is not empty, but its joined text is the
  empty string, which is falsy. For the body \<open>{error: 'Validation failed', details: ['']}\<close>
  the message of the error is the \<open>error\<close> field and not the joined details.
\<close>

theorem error_message_empty_detail_counterexample:
  "details \<lparr>ApiError.error = Some ''Validation failed'', details = Some ['''']\<rparr> = Some ['''']
   \<and> [''''] \<noteq> ([] :: string list)
   \<and> join '', '' [''''] = ''''
   \<and> request ''http://localhost:3001''
         (exampleErrorFetch \<lparr>ApiError.error = Some ''Validation failed'', details = Some ['''']\<rparr>)
         ''/expenses'' no_options
       = (Inl (Error ''Validation failed'') :: js_error + Expense option)
   \<and> ''Validation failed'' \<noteq> join '', '' ['''']"
  by (simp add: request_def exampleErrorFetch_def ok_def error_message_def truthy_def)

section \<open>The exported CSV text\<close>

lemma isDigit_digitChar: "0 \<le> d \<Longrightarrow> d < 10 \<Longrightarrow> isDigit (digitChar d)"
proof -
  assume "0 \<le> d" and "d < 10"
  then have "d = 0 \<or> d = 1 \<or> d = 2 \<or> d = 3 \<or> d = 4 \<or> d = 5 \<or> d = 6 \<or> d = 7 \<or> d = 8 \<or> d = 9"
    by arith
  moreover have "isDigit (digitChar 0)" "isDigit (digitChar 1)" "isDigit (digitChar 2)"
    "isDigit (digitChar 3)" "isDigit (digitChar 4)" "isDigit (digitChar 5)"
    "isDigit (digitChar 6)" "isDigit (digitChar 7)" "isDigit (digitChar 8)"
    "isDigit (digitChar 9)"
    by code_simp+
  ultimately show ?thesis by auto
qed

lemma digits_all_digits: "0 \<le> n \<Longrightarrow> list_all isDigit (digits n) \<and> digits n \<noteq> []"
proof (induction n rule: digits.induct)
  case (1 n)
  show ?case
  proof (cases "n < 10")
    case True
    with "1.prems" show ?thesis
      by (subst (1 2) digits.simps) (simp add: isDigit_digitChar)
  next
    case False
    then have "0 \<le> n div 10" by simp
    with "1.IH" False have "list_all isDigit (digits (n div 10))" by simp
    moreover have "isDigit (digitChar (n mod 10))"
      by (rule isDigit_digitChar) simp_all
    ultimately show ?thesis using False
      by (subst (1 2) digits.simps) simp
  qed
qed

lemma digits_length: "10 ^ k \<le> n \<Longrightarrow> k < length (digits n)"
proof (induction k arbitrary: n)
  case 0
  show ?case by (subst digits.simps) simp
next
  case (Suc k)
  have one: "1 \<le> (10::int) ^ k" by simp
  from Suc.prems have p: "10 * 10 ^ k \<le> n" by simp
  from one p have n: "\<not> n < 10" by arith
  from p have d: "10 ^ k \<le> n div 10" by arith
  from Suc.IH [OF d] n show ?case
    by (subst digits.simps) simp
qed

lemma digit_not_minus: "isDigit c \<Longrightarrow> c \<noteq> CHR ''-''"
  by (auto simp: isDigit_def)

lemma digit_not_point: "isDigit c \<Longrightarrow> c \<noteq> CHR ''.''"
  by (auto simp: isDigit_def)

lemma split_last_two:
  assumes "3 \<le> length m"
  shows "\<exists>a d1 d2. m = a @ [d1, d2] \<and> a \<noteq> []"
proof (cases m rule: rev_cases)
  case Nil
  with assms show ?thesis by simp
next
  case (snoc xs d2)
  show ?thesis
  proof (cases xs rule: rev_cases)
    case Nil
    with snoc assms show ?thesis by simp
  next
    case inner: (snoc a d1)
    with snoc assms have "m = a @ [d1, d2]" and "a \<noteq> []" by auto
    then show ?thesis by blast
  qed
qed

lemma twoFractionDigits_intro:
  assumes "sg = [] \<or> sg = ''-''" and "list_all isDigit m" and "3 \<le> length m"
  shows "twoFractionDigits (sg @ take (length m - 2) m @ ''.'' @ drop (length m - 2) m)"
proof -
  from split_last_two [OF assms(3)] obtain a d1 d2 where m: "m = a @ [d1, d2]" and a: "a \<noteq> []"
    by blast
  from m assms(2) have dig: "list_all isDigit a" "isDigit d1" "isDigit d2" by simp_all
  from a obtain c r where cr: "a = c # r" by (cases a) auto
  with dig have c: "c \<noteq> CHR ''-''" by (simp add: digit_not_minus)
  have "integerPart (sg @ a)"
  proof (cases "sg = []")
    case True
    with cr c dig show ?thesis by (simp add: integerPart_def)
  next
    case False
    with assms(1) have "sg = ''-''" by simp
    with a dig show ?thesis by (simp add: integerPart_def)
  qed
  moreover have "take (length m - 2) m = a" and "drop (length m - 2) m = [d1, d2]"
    using m by simp_all
  ultimately show ?thesis using dig
    by (simp add: twoFractionDigits_def)
qed

lemma fixedDigits_two:
  assumes "0 \<le> y"
  shows "\<exists>m. list_all isDigit m \<and> 3 \<le> length m
           \<and> fixedDigits 2 y = take (length m - 2) m @ ''.'' @ drop (length m - 2) m"
proof -
  define n where "n = \<lfloor>y * 10 ^ 2 + 1 / 2\<rfloor>"
  define m where "m = (if n = 0 then ''0'' else digits n)"
  define m' where "m' = (if length m \<le> 2 then replicate (2 + 1 - length m) CHR ''0'' @ m else m)"
  from assms have "0 \<le> n" by (simp add: n_def)
  then have "list_all isDigit m \<and> m \<noteq> []"
    using digits_all_digits [of n] by (auto simp: m_def isDigit_def)
  then have m': "list_all isDigit m'" "3 \<le> length m'"
    by (auto simp: m'_def isDigit_def list_all_iff)
  have "fixedDigits 2 y = take (length m' - 2) m' @ ''.'' @ drop (length m' - 2) m'"
    unfolding fixedDigits_def Let_def n_def [symmetric] m_def [symmetric]
    by (simp add: m'_def)
  with m' show ?thesis by blast
qed

lemma toFixed_two_digits:
  assumes "belowE21 x"
  shows "twoFractionDigits (toFixed 2 x)"
proof (cases x)
  case MinusZero
  from fixedDigits_two [of 0] obtain m where "list_all isDigit m" "3 \<le> length m"
    "fixedDigits 2 0 = take (length m - 2) m @ ''.'' @ drop (length m - 2) m" by auto
  with twoFractionDigits_intro [of "[]" m] MinusZero show ?thesis by simp
next
  case (Num r)
  define y where "y = (if r < 0 then - r else r)"
  define sg where "sg = (if r < 0 then ''-'' else '''')"
  from assms Num have y: "0 \<le> y" "\<not> y \<ge> 10 ^ 21" by (auto simp: y_def)
  from fixedDigits_two [OF y(1)] obtain m where m: "list_all isDigit m" "3 \<le> length m"
    "fixedDigits 2 y = take (length m - 2) m @ ''.'' @ drop (length m - 2) m" by auto
  have "toFixed 2 x = sg @ take (length m - 2) m @ ''.'' @ drop (length m - 2) m"
    using y m(3) unfolding Num toFixed.simps Let_def y_def [symmetric] sg_def [symmetric]
    by simp
  moreover have "sg = [] \<or> sg = ''-''" by (simp add: sg_def)
  ultimately show ?thesis using twoFractionDigits_intro [OF _ m(1,2)] by simp
qed (use assms in simp_all)

text \<open>From \<open>10^21\<close> on: the decade is at least 22, and the text is in exponent notation.\<close>

lemma decade_large:
  assumes "10 ^ 21 \<le> x"
  shows "22 \<le> decade x"
proof -
  from assms have "(10::int) ^ 21 \<le> \<lfloor>x\<rfloor>" by (simp add: le_floor_iff)
  then have "21 < length (digits \<lfloor>x\<rfloor>)" by (rule digits_length)
  moreover from assms have "1 \<le> x" by simp
  ultimately show ?thesis by (simp add: decade_def)
qed

lemma shortestDigits_large:
  assumes "10 ^ 21 \<le> x"
  shows "22 \<le> snd (shortestDigits x)"
  using decade_large [OF assms] by (simp add: shortestDigits_def Let_def)

lemma formatDigits_large:
  assumes "22 \<le> n"
  shows "formatDigits s n = mantissa s @ ''e+'' @ digits (n - 1)"
  using assms by (simp add: formatDigits_def Let_def)

lemma not_twoFractionDigits_exponent:
  assumes "list_all isDigit ds" and "2 \<le> length ds"
  shows "\<not> twoFractionDigits (m @ ''e+'' @ ds)"
proof -
  from assms(2) obtain d2 d1 r where r: "rev ds = d2 # d1 # r"
    by (cases "rev ds"; cases "tl (rev ds)") (auto simp: Suc_le_eq)
  have "rev (m @ ''e+'' @ ds) = d2 # d1 # r @ ''+e'' @ rev m"
    using r by simp
  moreover have "\<not> (case r @ ''+e'' @ rev m of [] \<Rightarrow> False | p # a \<Rightarrow> p = CHR ''.'')"
  proof (cases r)
    case Nil
    then show ?thesis by simp
  next
    case (Cons c cs)
    with r have "c \<in> set (rev ds)" by simp
    with assms(1) have "isDigit c" by (simp add: list_all_iff)
    with Cons show ?thesis by (simp add: digit_not_point)
  qed
  ultimately show ?thesis
    by (cases "r @ ''+e'' @ rev m") (simp_all add: twoFractionDigits_def)
qed

lemma exponentNotation_intro:
  assumes "list_all isDigit ds" and "ds \<noteq> []"
  shows "exponentNotation (m @ ''e+'' @ ds)"
proof -
  have "\<forall>c \<in> set (rev ds). isDigit c"
    using assms(1) by (simp add: list_all_iff)
  moreover have "\<not> isDigit CHR ''+''" by (simp add: isDigit_def)
  moreover have "rev (m @ ''e+'' @ ds) = rev ds @ CHR ''+'' # CHR ''e'' # rev m" by simp
  ultimately have "takeWhile isDigit (rev (m @ ''e+'' @ ds)) = rev ds"
    by (simp only: takeWhile_append2 takeWhile.simps if_False append_Nil2)
  with assms(2) show ?thesis
    by (simp add: exponentNotation_def Let_def suffix_def)
qed

lemma Number_toString_large:
  assumes "10 ^ 21 \<le> x"
  shows "exponentNotation (sg @ Number_toString (Num x))
       \<and> \<not> twoFractionDigits (sg @ Number_toString (Num x))"
proof -
  define n where "n = snd (shortestDigits x)"
  define s where "s = fst (shortestDigits x)"
  have n: "22 \<le> n" unfolding n_def using assms by (rule shortestDigits_large)
  from assms have x: "x \<noteq> 0" "\<not> x < 0" "\<bar>x\<bar> = x" by auto
  have shape: "sg @ Number_toString (Num x) = (sg @ mantissa s) @ ''e+'' @ digits (n - 1)"
    using x formatDigits_large [OF n, of s] by (simp add: n_def s_def)
  have "(10::int) ^ 1 \<le> n - 1" using n by simp
  then have "1 < length (digits (n - 1))" by (rule digits_length)
  then have two: "2 \<le> length (digits (n - 1))" and ne: "digits (n - 1) \<noteq> []" by auto
  have dig: "list_all isDigit (digits (n - 1))"
    using digits_all_digits [of "n - 1"] n by simp
  show ?thesis
    unfolding shape
    using exponentNotation_intro [OF dig ne, of "sg @ mantissa s"]
      not_twoFractionDigits_exponent [OF dig two, of "sg @ mantissa s"]
    by (rule conjI)
qed

lemma toFixed_not_below:
  assumes "\<not> belowE21 x"
  shows "toFixed 2 x = Number_toString x \<and> \<not> twoFractionDigits (toFixed 2 x)"
proof (cases x)
  case (Num r)
  with assms have r: "10 ^ 21 \<le> \<bar>r\<bar>" by simp
  show ?thesis
  proof (cases "r < 0")
    case True
    with r have "10 ^ 21 \<le> - r" by simp
    from Number_toString_large [OF this, of "''-''"] True r show ?thesis
      unfolding Num by (simp add: Let_def)
  next
    case False
    with r have "10 ^ 21 \<le> r" by simp
    from Number_toString_large [OF this, of "[]"] False r show ?thesis
      unfolding Num by (simp add: Let_def)
  qed
qed (use assms in \<open>simp_all add: twoFractionDigits_def integerPart_def isDigit_def\<close>)

lemma toFixed_exponent:
  assumes "fromE21 x"
  shows "exponentNotation (toFixed 2 x)"
proof (cases x)
  case (Num r)
  with assms have r: "10 ^ 21 \<le> \<bar>r\<bar>" by simp
  show ?thesis
  proof (cases "r < 0")
    case True
    with r have "10 ^ 21 \<le> - r" by simp
    from Number_toString_large [OF this, of "''-''"] True r show ?thesis
      unfolding Num by (simp add: Let_def)
  next
    case False
    with r have "10 ^ 21 \<le> r" by simp
    from Number_toString_large [OF this, of "[]"] False r show ?thesis
      unfolding Num by (simp add: Let_def)
  qed
qed (use assms in simp_all)

text \<open>
  The characters of \<open>toFixed(2)\<close>: digits, a point, a sign, the letter of the exponent,
  and the letters of \<open>Infinity\<close> and \<open>NaN\<close>; no line feed. The digits of the shortest
  representation are those of an integer that is not negative.
\<close>

lemma digit_not_lf: "isDigit c \<Longrightarrow> c \<noteq> CHR 0x0A"
  by (auto simp: isDigit_def)

lemma digits_no_lf: "0 \<le> n \<Longrightarrow> CHR 0x0A \<notin> set (digits n)"
  using digits_all_digits [of n] digit_not_lf by (auto simp: list_all_iff)

lemma pow10_pos: "0 < pow10 e"
  by (simp add: pow10_def)

lemma candidate_nonneg:
  assumes "candidate x d k = Some c" and "0 < x"
  shows "0 \<le> c"
proof -
  have "0 \<le> x / pow10 (d - k)" using assms(2) pow10_pos [of "d - k"] by simp
  then have "0 \<le> \<lfloor>x / pow10 (d - k)\<rfloor>" by simp
  with assms(1) show ?thesis
    by (auto simp: candidate_def Let_def split: if_splits)
qed

lemma firstCandidate_nonneg:
  assumes "firstCandidate x d ks = Some (c, k)" and "0 < x"
  shows "0 \<le> c"
  using assms
proof (induction ks)
  case Nil
  then show ?case by simp
next
  case (Cons j ks)
  show ?case
  proof (cases "candidate x d j")
    case None
    with Cons show ?thesis by simp
  next
    case (Some s)
    with Cons.prems(1) have "s = c" by simp
    with candidate_nonneg [OF Some Cons.prems(2)] show ?thesis by simp
  qed
qed

lemma shortestDigits_no_lf:
  assumes "0 < x"
  shows "CHR 0x0A \<notin> set (fst (shortestDigits x))"
proof -
  define d where "d = decade x"
  define found where
    "found = firstCandidate x d [1, 2, 3, 4, 5, 6, 7, 8, 9, 10, 11, 12, 13, 14, 15, 16, 17]"
  define sk where "sk = (case found of Some sk \<Rightarrow> sk | None \<Rightarrow> (\<lfloor>x / pow10 (d - 17)\<rfloor>, 17))"
  have "0 \<le> fst sk"
  proof (cases found)
    case None
    have "0 \<le> x / pow10 (d - 17)" using assms pow10_pos [of "d - 17"] by simp
    then have "0 \<le> \<lfloor>x / pow10 (d - 17)\<rfloor>" by simp
    with None show ?thesis by (simp add: sk_def)
  next
    case (Some p)
    then have "firstCandidate x d [1, 2, 3, 4, 5, 6, 7, 8, 9, 10, 11, 12, 13, 14, 15, 16, 17]
        = Some (fst p, snd p)" by (simp add: found_def)
    from firstCandidate_nonneg [OF this assms] Some show ?thesis by (simp add: sk_def)
  qed
  then have "CHR 0x0A \<notin> set (digits (fst sk))" by (rule digits_no_lf)
  moreover have "set (stripTrailingZeros (digits (fst sk))) \<subseteq> set (digits (fst sk))"
    by (auto simp: stripTrailingZeros_def dest: set_dropWhileD)
  moreover have "fst (shortestDigits x) = stripTrailingZeros (digits (fst sk))"
    by (simp only: shortestDigits_def Let_def sk_def found_def d_def fst_conv)
  ultimately show ?thesis by auto
qed

lemma mantissa_no_lf: "CHR 0x0A \<notin> set s \<Longrightarrow> CHR 0x0A \<notin> set (mantissa s)"
  by (induction s rule: mantissa.induct) auto

lemma Number_toString_large_no_lf:
  assumes "10 ^ 21 \<le> x"
  shows "CHR 0x0A \<notin> set (Number_toString (Num x))"
proof -
  define n where "n = snd (shortestDigits x)"
  define s where "s = fst (shortestDigits x)"
  have n: "22 \<le> n" unfolding n_def using assms by (rule shortestDigits_large)
  from assms have x: "x \<noteq> 0" "\<not> x < 0" "\<bar>x\<bar> = x" "0 < x" by auto
  have "Number_toString (Num x) = mantissa s @ ''e+'' @ digits (n - 1)"
    using x formatDigits_large [OF n, of s] by (simp add: n_def s_def)
  moreover have "CHR 0x0A \<notin> set (mantissa s)"
    unfolding s_def using shortestDigits_no_lf [OF x(4)] by (rule mantissa_no_lf)
  moreover have "CHR 0x0A \<notin> set (digits (n - 1))"
    using n by (intro digits_no_lf) simp
  ultimately show ?thesis by simp
qed

lemma toFixed_no_lf: "CHR 0x0A \<notin> set (toFixed 2 x)"
proof (cases "belowE21 x")
  case True
  show ?thesis
  proof (cases x)
    case MinusZero
    from fixedDigits_two [of 0] obtain m where "list_all isDigit m"
      "fixedDigits 2 0 = take (length m - 2) m @ ''.'' @ drop (length m - 2) m" by auto
    then have "CHR 0x0A \<notin> set (fixedDigits 2 0)"
      using digit_not_lf by (auto simp: list_all_iff dest: in_set_takeD in_set_dropD)
    with MinusZero show ?thesis by simp
  next
    case (Num r)
    define y where "y = (if r < 0 then - r else r)"
    from True Num have y: "0 \<le> y" "\<not> y \<ge> 10 ^ 21" by (auto simp: y_def)
    from fixedDigits_two [OF y(1)] obtain m where "list_all isDigit m"
      "fixedDigits 2 y = take (length m - 2) m @ ''.'' @ drop (length m - 2) m" by auto
    then have "CHR 0x0A \<notin> set (fixedDigits 2 y)"
      using digit_not_lf by (auto simp: list_all_iff dest: in_set_takeD in_set_dropD)
    with y show ?thesis
      unfolding Num toFixed.simps Let_def y_def [symmetric] by simp
  qed (use True in simp_all)
next
  case False
  show ?thesis
  proof (cases x)
    case (Num r)
    with False have r: "10 ^ 21 \<le> \<bar>r\<bar>" by simp
    show ?thesis
    proof (cases "r < 0")
      case True
      with r have "10 ^ 21 \<le> - r" by simp
      from Number_toString_large_no_lf [OF this] True r show ?thesis
        unfolding Num by (simp add: Let_def)
    next
      case False
      with r have "10 ^ 21 \<le> r" by simp
      from Number_toString_large_no_lf [OF this] False r show ?thesis
        unfolding Num by (simp add: Let_def)
    qed
  qed (use False in simp_all)
qed

text \<open>The lines of strings that are joined by line feeds and contain none.\<close>

lemma linesOf_nonempty: "linesOf s \<noteq> []"
  by (induction s) (auto split: list.splits)

lemma linesOf_one: "CHR 0x0A \<notin> set x \<Longrightarrow> linesOf x = [x]"
  by (induction x) auto

lemma linesOf_first: "CHR 0x0A \<notin> set x \<Longrightarrow> linesOf (x @ CHR 0x0A # r) = x # linesOf r"
proof (induction x)
  case Nil
  with linesOf_nonempty [of r] show ?case by (cases "linesOf r") simp_all
next
  case (Cons c x)
  then show ?case by auto
qed

lemma linesOf_join:
  "xs \<noteq> [] \<Longrightarrow> \<forall>x \<in> set xs. CHR 0x0A \<notin> set x \<Longrightarrow> linesOf (join [CHR 0x0A] xs) = xs"
proof (induction "[CHR 0x0A]" xs rule: join.induct)
  case 1
  then show ?case by simp
next
  case (2 x)
  then show ?case by (simp add: linesOf_one)
next
  case (3 x y ys)
  then show ?case by (simp add: linesOf_first)
qed

text \<open>
  C9, as the code has it. For every list of expenses the text of the exported blob is
  the header \<open>Date,Description,Category,Amount (\<close>rupee sign\<open>)\<close> followed by one row for
  each expense, in the order of the list, the header and the rows joined by line feeds.
  A row is the date, the description between double quotes with every double quote of
  it doubled, the category and \<open>amount.toFixed(2)\<close>, joined by commas. When no date,
  description or category contains a line feed, the lines of the text are exactly the
  header and these rows, one line for each expense. For a finite amount below \<open>10^21\<close>
  in absolute value, \<open>toFixed(2)\<close> is an optional minus sign, at least one digit, a point
  and exactly two digits. For every other amount it is the text that \<open>Number::toString\<close>
  gives, which does not have this shape: from \<open>10^21\<close> on it is in exponent notation,
  ending with \<open>e+\<close> and the digits of the exponent, and for an amount that is not finite
  it is \<open>Infinity\<close>, \<open>-Infinity\<close> or \<open>NaN\<close>.
\<close>

theorem exportToCSV_lines:
  "blob_text (exportToCSV stamp es) =
     join [CHR 0x0A]
       ((''Date,Description,Category,Amount ('' @ [CHR 0xE2, CHR 0x82, CHR 0xB9] @ '')'')
        # map (\<lambda>e. Expense.date e @ '','' @ [CHR 0x22]
                    @ concat (map (\<lambda>c. if c = CHR 0x22 then [CHR 0x22, CHR 0x22] else [c])
                        (Expense.description e))
                    @ [CHR 0x22] @ '','' @ Expense.category e @ '',''
                    @ toFixed 2 (Expense.amount e)) es)
   \<and> ((\<forall>e \<in> set es. CHR 0x0A \<notin> set (Expense.date e)
                      \<and> CHR 0x0A \<notin> set (Expense.description e)
                      \<and> CHR 0x0A \<notin> set (Expense.category e)) \<longrightarrow>
        linesOf (blob_text (exportToCSV stamp es)) =
          (''Date,Description,Category,Amount ('' @ [CHR 0xE2, CHR 0x82, CHR 0xB9] @ '')'')
          # map (\<lambda>e. Expense.date e @ '','' @ [CHR 0x22]
                      @ concat (map (\<lambda>c. if c = CHR 0x22 then [CHR 0x22, CHR 0x22] else [c])
                          (Expense.description e))
                      @ [CHR 0x22] @ '','' @ Expense.category e @ '',''
                      @ toFixed 2 (Expense.amount e)) es)
   \<and> (\<forall>e \<in> set es.
         belowE21 (Expense.amount e) \<longrightarrow> twoFractionDigits (toFixed 2 (Expense.amount e)))
   \<and> (\<forall>e \<in> set es.
         \<not> belowE21 (Expense.amount e) \<longrightarrow>
           toFixed 2 (Expense.amount e) = Number_toString (Expense.amount e)
           \<and> \<not> twoFractionDigits (toFixed 2 (Expense.amount e)))
   \<and> (\<forall>e \<in> set es.
         fromE21 (Expense.amount e) \<longrightarrow> exponentNotation (toFixed 2 (Expense.amount e)))
   \<and> (\<forall>e \<in> set es.
         \<not> isFinite (Expense.amount e) \<longrightarrow>
           toFixed 2 (Expense.amount e) \<in> {''Infinity'', ''-Infinity'', ''NaN''})"
proof -
  define header where
    "header = ''Date,Description,Category,Amount ('' @ [CHR 0xE2, CHR 0x82, CHR 0xB9] @ '')''"
  define rowText where
    "rowText = (\<lambda>e :: Expense. Expense.date e @ '','' @ [CHR 0x22]
                    @ concat (map (\<lambda>c. if c = CHR 0x22 then [CHR 0x22, CHR 0x22] else [c])
                        (Expense.description e))
                    @ [CHR 0x22] @ '','' @ Expense.category e @ '',''
                    @ toFixed 2 (Expense.amount e))"
  have h: "join '','' csvHeaders = header"
    by (simp add: csvHeaders_def header_def)
  have row: "join '','' (csvRow e) = rowText e" for e
    by (simp add: csvRow_def doubleQuotes_def rowText_def)
  have rows: "blob_text (exportToCSV stamp es) = join [CHR 0x0A] (header # map rowText es)"
    unfolding exportToCSV_def csvText_def map_map comp_def h row by simp
  have header_line: "CHR 0x0A \<notin> set header"
    by (simp add: header_def)
  have row_line: "CHR 0x0A \<notin> set (rowText e)"
    if "CHR 0x0A \<notin> set (Expense.date e)" "CHR 0x0A \<notin> set (Expense.description e)"
      "CHR 0x0A \<notin> set (Expense.category e)" for e
    using that toFixed_no_lf [of "Expense.amount e"] by (auto simp: rowText_def split: if_splits)
  have lines: "linesOf (blob_text (exportToCSV stamp es)) = header # map rowText es"
    if "\<forall>e \<in> set es. CHR 0x0A \<notin> set (Expense.date e)
                      \<and> CHR 0x0A \<notin> set (Expense.description e)
                      \<and> CHR 0x0A \<notin> set (Expense.category e)"
    unfolding rows using that header_line row_line by (intro linesOf_join) auto
  have infinite: "\<not> isFinite x \<longrightarrow> toFixed 2 x \<in> {''Infinity'', ''-Infinity'', ''NaN''}" for x
    by (cases x) simp_all
  from rows lines toFixed_two_digits toFixed_not_below toFixed_exponent infinite show ?thesis
    unfolding header_def rowText_def by blast
qed

lemma examplePage_csv:
  "blob_text (exportToCSV ''2024-03-02T10:00:00.000Z'' (data examplePage @ [hugeExpense])) =
     ''Date,Description,Category,Amount ('' @ [CHR 0xE2, CHR 0x82, CHR 0xB9] @ '')''
     @ [CHR 0x0A] @ ''2024-01-10,'' @ [CHR 0x22] @ ''Lunch'' @ [CHR 0x22] @ '',Food,100.50''
     @ [CHR 0x0A] @ ''2024-01-15,'' @ [CHR 0x22] @ ''Taxi'' @ [CHR 0x22] @ '',Transport,50.00''
     @ [CHR 0x0A] @ ''2024-02-01,'' @ [CHR 0x22] @ ''Tea'' @ [CHR 0x22] @ '',Food,20.00''
     @ [CHR 0x0A] @ ''2024-03-01,'' @ [CHR 0x22] @ ''Land'' @ [CHR 0x22] @ '',Other,1.1805916207174113e+21''"
  by code_simp

lemma examplePage_one_line_fields:
  "list_all (\<lambda>e. CHR 0x0A \<notin> set (Expense.date e)
                 \<and> CHR 0x0A \<notin> set (Expense.description e)
                 \<and> CHR 0x0A \<notin> set (Expense.category e)) (data examplePage @ [hugeExpense])"
  by code_simp

lemma examplePage_amounts:
  "map (\<lambda>e. belowE21 (Expense.amount e)) (data examplePage @ [hugeExpense])
     = [True, True, True, False]"
  "map (\<lambda>e. fromE21 (Expense.amount e)) (data examplePage @ [hugeExpense])
     = [False, False, False, True]"
  by code_simp+

theorem exportToCSV_lines_witness:
  "map (\<lambda>e. belowE21 (Expense.amount e)) (data examplePage @ [hugeExpense])
     = [True, True, True, False]
   \<and> map (\<lambda>e. fromE21 (Expense.amount e)) (data examplePage @ [hugeExpense])
     = [False, False, False, True]
   \<and> list_all (\<lambda>e. twoFractionDigits (toFixed 2 (Expense.amount e))) (data examplePage)
   \<and> exponentNotation (toFixed 2 (Expense.amount hugeExpense))
   \<and> length (linesOf (blob_text
         (exportToCSV ''2024-03-02T10:00:00.000Z'' (data examplePage @ [hugeExpense])))) = 5
   \<and> blob_text (exportToCSV ''2024-03-02T10:00:00.000Z'' (data examplePage @ [hugeExpense])) =
     ''Date,Description,Category,Amount ('' @ [CHR 0xE2, CHR 0x82, CHR 0xB9] @ '')''
     @ [CHR 0x0A] @ ''2024-01-10,'' @ [CHR 0x22] @ ''Lunch'' @ [CHR 0x22] @ '',Food,100.50''
     @ [CHR 0x0A] @ ''2024-01-15,'' @ [CHR 0x22] @ ''Taxi'' @ [CHR 0x22] @ '',Transport,50.00''
     @ [CHR 0x0A] @ ''2024-02-01,'' @ [CHR 0x22] @ ''Tea'' @ [CHR 0x22] @ '',Food,20.00''
     @ [CHR 0x0A] @ ''2024-03-01,'' @ [CHR 0x22] @ ''Land'' @ [CHR 0x22] @ '',Other,1.1805916207174113e+21''"
  using exportToCSV_lines [of "''2024-03-02T10:00:00.000Z''" "data examplePage @ [hugeExpense]"]
    examplePage_amounts examplePage_csv examplePage_one_line_fields
  by (auto simp: list_all_iff examplePage_def)

text \<open>
  C9 as stated fails in two ways. From \<open>10^21\<close> on, \<open>toFixed\<close> returns the exponent
  notation of the number: the row of an expense of amount \<open>2^70\<close> ends with
  \<open>1.1805916207174113e+21\<close>, which does not have two fraction digits. And a row is not
  always one line: a line feed in a description is copied between the quotes, so the text
  for one expense whose description has two lines has three lines, the header included.
\<close>

theorem exportToCSV_huge_amount_counterexample:
  "blob_text (exportToCSV ''2024-03-02T10:00:00.000Z'' [hugeExpense]) =
     ''Date,Description,Category,Amount ('' @ [CHR 0xE2, CHR 0x82, CHR 0xB9] @ '')''
     @ [CHR 0x0A] @ ''2024-03-01,'' @ [CHR 0x22] @ ''Land'' @ [CHR 0x22] @ '',Other,1.1805916207174113e+21''
   \<and> toFixed 2 (Expense.amount hugeExpense) = ''1.1805916207174113e+21''
   \<and> \<not> twoFractionDigits (toFixed 2 (Expense.amount hugeExpense))
   \<and> blob_text (exportToCSV ''2024-03-02T10:00:00.000Z'' [twoLineExpense]) =
     ''Date,Description,Category,Amount ('' @ [CHR 0xE2, CHR 0x82, CHR 0xB9] @ '')''
     @ [CHR 0x0A] @ ''2024-03-01,'' @ [CHR 0x22] @ ''Rent'' @ [CHR 0x0A] @ ''and deposit''
     @ [CHR 0x22] @ '',Bills,12000.00''
   \<and> linesOf (blob_text (exportToCSV ''2024-03-02T10:00:00.000Z'' [twoLineExpense])) =
     [''Date,Description,Category,Amount ('' @ [CHR 0xE2, CHR 0x82, CHR 0xB9] @ '')'',
      ''2024-03-01,'' @ [CHR 0x22] @ ''Rent'',
      ''and deposit'' @ [CHR 0x22] @ '',Bills,12000.00'']
   \<and> length (linesOf (blob_text (exportToCSV ''2024-03-02T10:00:00.000Z'' [twoLineExpense]))) = 3
   \<and> length [twoLineExpense] = 1"
  by (intro conjI; code_simp)

section \<open>The amount check of the create form\<close>

lemma parseFloat_examples:
  "parseFloat ''0'' = Num 0"
  "parseFloat ''-5'' = Num (- 5)"
  "parseFloat ''10.50'' = Num (21 / 2)"
  by code_simp+

lemma amount_examples:
  "rangeUnderflow (1 / 100) ''0''"
  "rangeUnderflow (1 / 100) ''-5''"
  "stepMismatch (1 / 100) (1 / 100) ''10.555''"
  "\<not> valueMissing ''10.555''"
  "\<not> rangeUnderflow (1 / 100) ''10.555''"
  "amountInputValid ''10.50''"
  by code_simp+

lemma amount_invalid:
  "\<not> amountInputValid ''0''" "\<not> amountInputValid ''-5''" "\<not> amountInputValid ''10.555''"
  using amount_examples by (simp_all add: amountInputValid_def)

lemma validDateString_truthy: "validDateString s \<Longrightarrow> truthy s"
  by (auto simp: validDateString_def truthy_def Let_def)

lemma trim_empty: "trim '''' = ''''"
  by code_simp

lemma truthy_trim: "truthy (trim s) \<Longrightarrow> s \<noteq> ''''"
  using trim_empty by (auto simp: truthy_def)

lemma handleSubmit_sends_iff:
  "sent (handleSubmit env st) \<noteq> None \<longleftrightarrow>
     \<not> isNaN (parseFloat (ExpenseForm.amount st))
     \<and> \<not> le_zero (parseFloat (ExpenseForm.amount st))
     \<and> truthy (trim (ExpenseForm.description st))
     \<and> truthy (ExpenseForm.date st)"
  by (simp add: handleSubmit_def Let_def split: sum.splits)

lemma handleSubmit_sent_amount:
  "sent (handleSubmit env st) = Some input \<Longrightarrow>
   CreateExpenseInput.amount input = parseFloat (ExpenseForm.amount st)"
  by (auto simp: handleSubmit_def Let_def split: if_splits sum.splits)

lemma submitForm_invalid:
  "\<not> formValid st \<Longrightarrow> sent (submitForm env st) = None \<and> state (submitForm env st) = st"
  by (simp add: submitForm_def)

text \<open>
  C3. The validation of the amount before a create request is sent: the constraints of
  the amount input, which the browser checks before it calls \<open>handleSubmit\<close>, and the
  check of \<open>handleSubmit\<close> itself. It fails for the amounts \<open>0\<close> and \<open>-5\<close> (below the
  minimum 0.01) and for \<open>10.555\<close> (not 0.01 plus a multiple of the step 0.01): the form
  is not valid, the handler is not called, nothing is sent and the state of the form
  stays as it is. It succeeds for \<open>10.50\<close>: the create request is then sent exactly when
  no submission is under way, the date is a valid date and the trimmed description is not
  empty, and its amount is 10.5. For \<open>0\<close> and \<open>-5\<close> the check of \<open>handleSubmit\<close> fails,
  too.
\<close>

theorem create_form_amount_validation:
  "rangeUnderflow (1 / 100) ''0''
   \<and> rangeUnderflow (1 / 100) ''-5''
   \<and> stepMismatch (1 / 100) (1 / 100) ''10.555''
   \<and> amountInputValid ''10.50''
   \<and> (ExpenseForm.amount st = ''0'' \<or> ExpenseForm.amount st = ''-5''
        \<or> ExpenseForm.amount st = ''10.555'' \<longrightarrow>
      \<not> formValid st \<and> sent (submitForm env st) = None \<and> state (submitForm env st) = st)
   \<and> (ExpenseForm.amount st = ''10.50'' \<longrightarrow>
        (sent (submitForm env st) \<noteq> None \<longleftrightarrow>
           \<not> isSubmitting st \<and> validDateString (ExpenseForm.date st)
           \<and> truthy (trim (ExpenseForm.description st)))
        \<and> (\<forall>input. sent (submitForm env st) = Some input \<longrightarrow>
              CreateExpenseInput.amount input = Num (21 / 2)))
   \<and> (ExpenseForm.amount st = ''0'' \<or> ExpenseForm.amount st = ''-5'' \<longrightarrow>
        sent (handleSubmit env st) = None
        \<and> ExpenseForm.error (state (handleSubmit env st))
            = Some ''Please enter a valid amount greater than 0'')"
proof -
  have rejected: "ExpenseForm.amount st = ''0'' \<or> ExpenseForm.amount st = ''-5''
        \<or> ExpenseForm.amount st = ''10.555'' \<longrightarrow>
      \<not> formValid st \<and> sent (submitForm env st) = None \<and> state (submitForm env st) = st"
  proof
    assume "ExpenseForm.amount st = ''0'' \<or> ExpenseForm.amount st = ''-5''
        \<or> ExpenseForm.amount st = ''10.555''"
    then have "\<not> amountInputValid (ExpenseForm.amount st)"
      using amount_invalid by auto
    then have "\<not> formValid st" by (simp add: formValid_def)
    with submitForm_invalid [of st env] show
      "\<not> formValid st \<and> sent (submitForm env st) = None \<and> state (submitForm env st) = st"
      by simp
  qed
  have accepted: "ExpenseForm.amount st = ''10.50'' \<longrightarrow>
        (sent (submitForm env st) \<noteq> None \<longleftrightarrow>
           \<not> isSubmitting st \<and> validDateString (ExpenseForm.date st)
           \<and> truthy (trim (ExpenseForm.description st)))
        \<and> (\<forall>input. sent (submitForm env st) = Some input \<longrightarrow>
              CreateExpenseInput.amount input = Num (21 / 2))"
  proof
    assume a: "ExpenseForm.amount st = ''10.50''"
    have valid: "formValid st \<longleftrightarrow>
        validDateString (ExpenseForm.date st) \<and> ExpenseForm.description st \<noteq> ''''"
      using a amount_examples(6) by (simp add: formValid_def)
    have sends: "sent (submitForm env st) \<noteq> None \<longleftrightarrow>
           \<not> isSubmitting st \<and> validDateString (ExpenseForm.date st)
           \<and> truthy (trim (ExpenseForm.description st))"
    proof (cases "\<not> isSubmitting st \<and> formValid st")
      case True
      then have "sent (submitForm env st) = sent (handleSubmit env st)"
        by (simp add: submitForm_def)
      with True valid a handleSubmit_sends_iff [of env st] validDateString_truthy
      show ?thesis by (auto simp: parseFloat_examples)
    next
      case False
      with valid truthy_trim [of "ExpenseForm.description st"] show ?thesis
        by (auto simp: submitForm_def)
    qed
    have amount: "CreateExpenseInput.amount input = Num (21 / 2)"
      if "sent (submitForm env st) = Some input" for input
    proof (cases "\<not> isSubmitting st \<and> formValid st")
      case True
      with that have "sent (handleSubmit env st) = Some input" by (simp add: submitForm_def)
      from handleSubmit_sent_amount [OF this] a show ?thesis by (simp add: parseFloat_examples)
    next
      case False
      with that show ?thesis by (simp add: submitForm_def)
    qed
    from sends amount show
      "(sent (submitForm env st) \<noteq> None \<longleftrightarrow>
           \<not> isSubmitting st \<and> validDateString (ExpenseForm.date st)
           \<and> truthy (trim (ExpenseForm.description st)))
        \<and> (\<forall>input. sent (submitForm env st) = Some input \<longrightarrow>
              CreateExpenseInput.amount input = Num (21 / 2))"
      by blast
  qed
  have handler: "ExpenseForm.amount st = ''0'' \<or> ExpenseForm.amount st = ''-5'' \<longrightarrow>
        sent (handleSubmit env st) = None
        \<and> ExpenseForm.error (state (handleSubmit env st))
            = Some ''Please enter a valid amount greater than 0''"
    by (auto simp: handleSubmit_def Let_def parseFloat_examples)
  from amount_examples(1,2,3,6) rejected accepted handler show ?thesis by blast
qed

lemma formWith_fields:
  "truthy (trim (ExpenseForm.description (formWith a ''Lunch'')))"
  "validDateString (ExpenseForm.date (formWith a d))"
  "ExpenseForm.amount (formWith a d) = a"
  "\<not> isSubmitting (formWith a d)"
  by (code_simp, code_simp, simp add: formWith_def, simp add: formWith_def initialExpenseForm_def)

lemma example_create_sent:
  "sent (submitForm offlineEnv (formWith ''10.50'' ''Lunch'')) =
     Some \<lparr>CreateExpenseInput.amount = Num (21 / 2),
           CreateExpenseInput.category = ''Food'',
           CreateExpenseInput.description = ''Lunch'',
           CreateExpenseInput.date = ''2023-11-14'',
           idempotency_key = Some ''1700000000000-4fzyo82mvyr''\<rparr>"
  by code_simp

theorem create_form_amount_validation_witness:
  "sent (submitForm offlineEnv (formWith ''0'' ''Lunch'')) = None
   \<and> sent (submitForm offlineEnv (formWith ''-5'' ''Lunch'')) = None
   \<and> sent (submitForm offlineEnv (formWith ''10.555'' ''Lunch'')) = None
   \<and> validDateString (ExpenseForm.date (formWith ''10.50'' ''Lunch''))
   \<and> truthy (trim (ExpenseForm.description (formWith ''10.50'' ''Lunch'')))
   \<and> sent (submitForm offlineEnv (formWith ''10.50'' ''Lunch'')) =
       Some \<lparr>CreateExpenseInput.amount = Num (21 / 2),
             CreateExpenseInput.category = ''Food'',
             CreateExpenseInput.description = ''Lunch'',
             CreateExpenseInput.date = ''2023-11-14'',
             idempotency_key = Some ''1700000000000-4fzyo82mvyr''\<rparr>"
  using create_form_amount_validation [of "formWith ''0'' ''Lunch''" offlineEnv]
    create_form_amount_validation [of "formWith ''-5'' ''Lunch''" offlineEnv]
    create_form_amount_validation [of "formWith ''10.555'' ''Lunch''" offlineEnv]
    create_form_amount_validation [of "formWith ''10.50'' ''Lunch''" offlineEnv]
    formWith_fields example_create_sent
  by simp

section \<open>The description on the create path and on the edit path\<close>

lemma handleSubmit_sent_description:
  "sent (handleSubmit env st) = Some input \<Longrightarrow>
   CreateExpenseInput.description input = trim (ExpenseForm.description st)
   \<and> CreateExpenseInput.description input \<noteq> ''''"
  by (auto simp: handleSubmit_def Let_def truthy_def split: if_splits sum.splits)

lemma handleSubmit_description_after:
  "ExpenseForm.description (state (handleSubmit env st)) = ExpenseForm.description st
   \<or> ExpenseForm.description (state (handleSubmit env st)) = ''''"
  by (auto simp: handleSubmit_def Let_def resetForm_def split: sum.splits)

text \<open>Trimming removes characters from the two ends, so it does not make a string longer.\<close>

lemma length16_append: "length16 (xs @ ys) = length16 xs + length16 ys"
  by (simp add: length16_def)

lemma length16_drop: "length16 (drop n s) \<le> length16 s"
proof -
  have "length16 s = length16 (take n s) + length16 (drop n s)"
    using length16_append [of "take n s" "drop n s"] by simp
  then show ?thesis by simp
qed

lemma length16_take: "length16 (take n s) \<le> length16 s"
proof -
  have "length16 s = length16 (take n s) + length16 (drop n s)"
    using length16_append [of "take n s" "drop n s"] by simp
  then show ?thesis by simp
qed

lemma length16_trimStart: "length16 (trimStart s) \<le> length16 s"
proof (induction s rule: trimStart.induct)
  case (1 s)
  show ?case
  proof (cases "leading_white_space s")
    case None
    then show ?thesis by (subst trimStart.simps) simp
  next
    case (Some w)
    from "1.IH" [OF Some] length16_drop [of "length w" s]
    have "length16 (trimStart (drop (length w) s)) \<le> length16 s" by simp
    with Some show ?thesis by (subst trimStart.simps) simp
  qed
qed

lemma length16_trimEnd: "length16 (trimEnd s) \<le> length16 s"
proof (induction s rule: trimEnd.induct)
  case (1 s)
  show ?case
  proof (cases "trailing_white_space s")
    case None
    then show ?thesis by (subst trimEnd.simps) simp
  next
    case (Some w)
    from "1.IH" [OF Some] length16_take [of "length s - length w" s]
    have "length16 (trimEnd (take (length s - length w) s)) \<le> length16 s" by simp
    with Some show ?thesis by (subst trimEnd.simps) simp
  qed
qed

lemma length16_trim: "length16 (trim s) \<le> length16 s"
  unfolding trim_def
  using length16_trimEnd [of "trimStart s"] length16_trimStart [of s] by simp

text \<open>Trimming a trimmed string changes nothing.\<close>

lemma trimStart_no_leading: "leading_white_space (trimStart s) = None"
proof (induction s rule: trimStart.induct)
  case (1 s)
  show ?case
  proof (cases "leading_white_space s")
    case None
    then show ?thesis by (subst trimStart.simps) simp
  next
    case (Some w)
    with "1.IH" [OF Some] show ?thesis by (subst trimStart.simps) simp
  qed
qed

lemma trimEnd_no_trailing: "trailing_white_space (trimEnd s) = None"
proof (induction s rule: trimEnd.induct)
  case (1 s)
  show ?case
  proof (cases "trailing_white_space s")
    case None
    then show ?thesis by (subst trimEnd.simps) simp
  next
    case (Some w)
    with "1.IH" [OF Some] show ?thesis by (subst trimEnd.simps) simp
  qed
qed

lemma trimEnd_prefix: "prefix (trimEnd s) s"
proof (induction s rule: trimEnd.induct)
  case (1 s)
  show ?case
  proof (cases "trailing_white_space s")
    case None
    then show ?thesis by (subst trimEnd.simps) simp
  next
    case (Some w)
    have "prefix (take (length s - length w) s) s" by (rule take_is_prefix)
    with "1.IH" [OF Some] have "prefix (trimEnd (take (length s - length w) s)) s"
      by (rule prefix_order.trans)
    with Some show ?thesis by (subst trimEnd.simps) simp
  qed
qed

lemma leading_white_space_prefix:
  assumes "prefix u t" and "leading_white_space t = None"
  shows "leading_white_space u = None"
proof (rule ccontr)
  assume "leading_white_space u \<noteq> None"
  then obtain w where w: "leading_white_space u = Some w" by auto
  then have "w \<in> set white_space" and "prefix w u"
    by (auto simp: leading_white_space_def find_Some_iff)
  with assms(1) have "w \<in> set white_space" and "prefix w t"
    by (auto intro: prefix_order.trans)
  with assms(2) show False
    by (auto simp: leading_white_space_def find_None_iff)
qed

lemma trim_idem: "trim (trim s) = trim s"
proof -
  have "leading_white_space (trimEnd (trimStart s)) = None"
    using trimEnd_prefix [of "trimStart s"] trimStart_no_leading [of s]
    by (rule leading_white_space_prefix)
  then have "trimStart (trimEnd (trimStart s)) = trimEnd (trimStart s)"
    by (subst trimStart.simps) simp
  moreover have "trimEnd (trimEnd (trimStart s)) = trimEnd (trimStart s)"
    using trimEnd_no_trailing [of "trimStart s"] by (subst trimEnd.simps) simp
  ultimately show ?thesis by (simp add: trim_def)
qed

text \<open>
  On the create path the description of the form never has more than 500 code units,
  and every request carries its trimmed, non-empty text.
\<close>

lemma step_description:
  assumes "withinMaxLength ev" and "length16 (ExpenseForm.description st) \<le> 500"
  shows "length16 (ExpenseForm.description (fst (step ev st))) \<le> 500"
proof (cases ev)
  case (Submit env)
  with handleSubmit_description_after [of env st] assms(2) show ?thesis
    by (auto simp: Let_def length16_def)
qed (use assms in simp_all)

lemma step_requests_description:
  assumes "length16 (ExpenseForm.description st) \<le> 500" and "a \<in> set (snd (step ev st))"
  shows "CreateExpenseInput.description (input_of a) \<noteq> ''''
       \<and> length16 (CreateExpenseInput.description (input_of a)) \<le> 500
       \<and> trim (CreateExpenseInput.description (input_of a))
           = CreateExpenseInput.description (input_of a)"
proof (cases ev)
  case (Submit env)
  show ?thesis
  proof (cases "sent (handleSubmit env st)")
    case None
    with Submit assms(2) show ?thesis by (simp add: Let_def)
  next
    case (Some input)
    with Submit assms(2) have a: "input_of a = input" by (simp add: Let_def)
    from handleSubmit_sent_description [OF Some]
    have d: "CreateExpenseInput.description input = trim (ExpenseForm.description st)"
      and ne: "CreateExpenseInput.description input \<noteq> ''''" by blast+
    from d length16_trim [of "ExpenseForm.description st"] assms(1)
    have "length16 (CreateExpenseInput.description input) \<le> 500" by simp
    with a d ne trim_idem [of "ExpenseForm.description st"] show ?thesis by simp
  qed
qed (use assms in simp_all)

lemma requests_description:
  assumes "\<forall>ev \<in> set evs. withinMaxLength ev" and "length16 (ExpenseForm.description st) \<le> 500"
    and "a \<in> set (requests evs st)"
  shows "CreateExpenseInput.description (input_of a) \<noteq> ''''
       \<and> length16 (CreateExpenseInput.description (input_of a)) \<le> 500
       \<and> trim (CreateExpenseInput.description (input_of a))
           = CreateExpenseInput.description (input_of a)"
  using assms
proof (induction evs arbitrary: st)
  case Nil
  then show ?case by simp
next
  case (Cons ev evs)
  from Cons.prems(3) consider "a \<in> set (snd (step ev st))"
    | "a \<in> set (requests evs (fst (step ev st)))" by auto
  then show ?case
  proof cases
    case 1
    with Cons.prems(2) show ?thesis by (rule step_requests_description)
  next
    case 2
    have "length16 (ExpenseForm.description (fst (step ev st))) \<le> 500"
      using Cons.prems(1,2) by (simp add: step_description)
    with Cons.IH [of "fst (step ev st)"] Cons.prems(1) 2 show ?thesis by simp
  qed
qed

lemma trim_long: "trim (replicate 501 CHR ''a'') = replicate 501 CHR ''a''"
  by code_simp

lemma length16_long: "length16 (replicate 501 CHR ''a'') = 501"
  by code_simp

lemma editingLong_fields:
  "editingExpense editingLong = Some (hd (data examplePage))"
  "id (hd (data examplePage)) = ''a''"
  "parseFloat (EditForm.amount (editForm editingLong)) = Num (201 / 2)"
  "EditForm.description (editForm editingLong) = replicate 501 CHR ''a''"
  "EditForm.category (editForm editingLong) = ''Food''"
  "EditForm.date (editForm editingLong) = ''2024-01-10''"
  by code_simp+

lemma editingBlank_fields:
  "editingExpense editingBlank = Some (hd (data examplePage))"
  "parseFloat (EditForm.amount (editForm editingBlank)) = Num (201 / 2)"
  "trim (EditForm.description (editForm editingBlank)) = ''''"
  "EditForm.category (editForm editingBlank) = ''Food''"
  "EditForm.date (editForm editingBlank) = ''2024-01-10''"
  by code_simp+

text \<open>
  C4. On the create path the claim holds: for every sequence of changes and submissions
  of the create form, from a form whose description is within the \<open>maxLength\<close> of its
  input and with the values that this input can deliver, every create request carries a
  description that is trimmed, not empty and of at most 500 code units. On the edit path
  it does not: \<open>handleEditSubmit\<close> checks the amount only, and the description input of
  the edit dialog has no \<open>maxLength\<close>. With three spaces as the description of the edit
  form it sends the update with the empty description, and with 501 letters it sends the
  update with these 501 letters, whatever the network answers.
\<close>

theorem description_checked_on_create_not_on_edit:
  "((\<forall>ev \<in> set evs. withinMaxLength ev) \<and> length16 (ExpenseForm.description st) \<le> 500 \<longrightarrow>
      (\<forall>a \<in> set (requests evs st).
         CreateExpenseInput.description (input_of a) \<noteq> ''''
         \<and> length16 (CreateExpenseInput.description (input_of a)) \<le> 500
         \<and> trim (CreateExpenseInput.description (input_of a))
             = CreateExpenseInput.description (input_of a)))
   \<and> EditForm.description (editForm editingBlank) = ''   ''
   \<and> update_sent (handleEditSubmit base fetchPut fetchGet editingBlank) =
       Some (''a'',
         \<lparr>CreateExpenseInput.amount = Num (201 / 2),
          CreateExpenseInput.category = ''Food'',
          CreateExpenseInput.description = '''',
          CreateExpenseInput.date = ''2024-01-10'',
          idempotency_key = None\<rparr>)
   \<and> EditForm.description (editForm editingLong) = replicate 501 CHR ''a''
   \<and> update_sent (handleEditSubmit base fetchPut fetchGet editingLong) =
       Some (''a'',
         \<lparr>CreateExpenseInput.amount = Num (201 / 2),
          CreateExpenseInput.category = ''Food'',
          CreateExpenseInput.description = replicate 501 CHR ''a'',
          CreateExpenseInput.date = ''2024-01-10'',
          idempotency_key = None\<rparr>)
   \<and> length16 (replicate 501 CHR ''a'') = 501"
proof -
  have create: "(\<forall>ev \<in> set evs. withinMaxLength ev) \<and> length16 (ExpenseForm.description st) \<le> 500 \<longrightarrow>
      (\<forall>a \<in> set (requests evs st).
         CreateExpenseInput.description (input_of a) \<noteq> ''''
         \<and> length16 (CreateExpenseInput.description (input_of a)) \<le> 500
         \<and> trim (CreateExpenseInput.description (input_of a))
             = CreateExpenseInput.description (input_of a))"
    using requests_description [of evs st] by blast
  have blank: "EditForm.description (editForm editingBlank) = ''   ''"
    by (simp add: editingBlank_def)
  have blank_sent: "update_sent (handleEditSubmit base fetchPut fetchGet editingBlank) =
       Some (''a'',
         \<lparr>CreateExpenseInput.amount = Num (201 / 2),
          CreateExpenseInput.category = ''Food'',
          CreateExpenseInput.description = '''',
          CreateExpenseInput.date = ''2024-01-10'',
          idempotency_key = None\<rparr>)"
    by (simp add: handleEditSubmit_def Let_def editingBlank_fields editingLong_fields(2)
        split: sum.splits)
  have long_sent: "update_sent (handleEditSubmit base fetchPut fetchGet editingLong) =
       Some (''a'',
         \<lparr>CreateExpenseInput.amount = Num (201 / 2),
          CreateExpenseInput.category = ''Food'',
          CreateExpenseInput.description = replicate 501 CHR ''a'',
          CreateExpenseInput.date = ''2024-01-10'',
          idempotency_key = None\<rparr>)"
    by (simp add: handleEditSubmit_def Let_def editingLong_fields trim_long split: sum.splits)
  from create blank blank_sent editingLong_fields(4) long_sent length16_long
  show ?thesis by blast
qed

lemma example_requests_descriptions:
  "map (\<lambda>a. CreateExpenseInput.description (input_of a))
     (requests [ChangeAmount ''10.50'', ChangeDescription ''  Lunch  '', Submit offlineEnv]
        (initialExpenseForm ''2023-11-14T22:00:00.000Z'')) = [''Lunch'']"
  "list_all withinMaxLength [ChangeAmount ''10.50'', ChangeDescription ''  Lunch  '', Submit offlineEnv]"
  "length16 (ExpenseForm.description (initialExpenseForm ''2023-11-14T22:00:00.000Z'')) \<le> 500"
  by code_simp+

theorem description_checked_on_create_not_on_edit_witness:
  "list_all withinMaxLength [ChangeAmount ''10.50'', ChangeDescription ''  Lunch  '', Submit offlineEnv]
   \<and> length16 (ExpenseForm.description (initialExpenseForm ''2023-11-14T22:00:00.000Z'')) \<le> 500
   \<and> map (\<lambda>a. CreateExpenseInput.description (input_of a))
       (requests [ChangeAmount ''10.50'', ChangeDescription ''  Lunch  '', Submit offlineEnv]
          (initialExpenseForm ''2023-11-14T22:00:00.000Z'')) = [''Lunch'']
   \<and> list_all (\<lambda>a. CreateExpenseInput.description (input_of a) \<noteq> ''''
                  \<and> length16 (CreateExpenseInput.description (input_of a)) \<le> 500)
       (requests [ChangeAmount ''10.50'', ChangeDescription ''  Lunch  '', Submit offlineEnv]
          (initialExpenseForm ''2023-11-14T22:00:00.000Z''))
   \<and> map_option (CreateExpenseInput.description \<circ> snd)
         (update_sent (handleEditSubmit ''http://localhost:3001'' offlinePut examplePageFetch
            editingBlank)) = Some ''''
   \<and> map_option (length \<circ> CreateExpenseInput.description \<circ> snd)
         (update_sent (handleEditSubmit ''http://localhost:3001'' offlinePut examplePageFetch
            editingLong)) = Some 501"
  using description_checked_on_create_not_on_edit
      [of "[ChangeAmount ''10.50'', ChangeDescription ''  Lunch  '', Submit offlineEnv]"
        "initialExpenseForm ''2023-11-14T22:00:00.000Z''" "''http://localhost:3001''"
        offlinePut examplePageFetch]
    example_requests_descriptions
  by (simp add: list_all_iff)

section \<open>The category enumeration\<close>

text \<open>
  C8. The category enumeration is the fixed list of exactly 8 distinct values Food,
  Transport, Entertainment, Shopping, Bills, Healthcare, Education, Other, and the
  values offered by the category select of the create form and of the edit form are
  exactly the elements of that list, in its order.
\<close>

theorem categories_fixed_enumeration:
  "CATEGORIES = [''Food'', ''Transport'', ''Entertainment'', ''Shopping'',
                 ''Bills'', ''Healthcare'', ''Education'', ''Other'']
   \<and> length CATEGORIES = 8
   \<and> distinct CATEGORIES
   \<and> map opt_value createFormCategoryOptions = CATEGORIES
   \<and> map opt_value editFormCategoryOptions = CATEGORIES"
  by (simp add: CATEGORIES_def createFormCategoryOptions_def editFormCategoryOptions_def
      category_option_def)

end
